theory Spec2Isabelle
  imports Complex_Main "HOL-Library.Char_ord" "HOL-Library.List_Lexorder"
begin

section \<open>The GROMACS exporter of openff-interchange\<close>

text \<open>
  A shallow embedding of \<^verbatim>\<open>openff/interchange/interop/internal/gromacs.py\<close>
  (and of the bond writer of the older \<^verbatim>\<open>openff/system/interop/internal.py\<close>).

  Conventions of the embedding.
  \<^item> A Python \<^verbatim>\<open>float\<close> is a \<^typ>\<open>real\<close>: rounding error of the
    arithmetic is not modelled. Python integers are \<^typ>\<open>int\<close>.
  \<^item> A unit-carrying quantity is its magnitude in a fixed reference unit: nanometer,
    radian, kilojoule/mole, elementary charge (and their products). The unit library
    is outside the sources; the only conversion the exporter asks for that is not the
    identity on these magnitudes is radian to degree.
  \<^item> A \<^verbatim>\<open>dict\<close> whose iteration order is read is an association list in
    insertion order (its keys are distinct); any other \<^verbatim>\<open>dict\<close> is a map.
  \<^item> Every \<^verbatim>\<open>raise\<close>, failed lookup or unbound local is a value of
    \<open>error\<close>; a fallible expression has type \<open>error + 'a\<close>.
  \<^item> A file is the list of the \<^verbatim>\<open>write\<close> calls made on it. A call that
    formats numbers is kept as a record of its arguments (the text of a formatted
    float is not modelled in the topology file); a writer returns what it wrote
    together with the error that stopped it, if any.
\<close>

subsection \<open>Errors and lookups\<close>

datatype error =
    UnsupportedExportError
  | NotImplementedError
  | KeyError
  | LookupError
  | UnboundLocalError
  | ZeroDivisionError
  | ValueError
  | IndexError
  | AttributeError
  | Exception

definition try_bind :: "error + 'a \<Rightarrow> ('a \<Rightarrow> error + 'b) \<Rightarrow> error + 'b" where
  "try_bind m f = (case m of Inl e \<Rightarrow> Inl e | Inr x \<Rightarrow> f x)"

text \<open>\<^verbatim>\<open>d[k]\<close> on a dict.\<close>

definition dict_get :: "('k \<rightharpoonup> 'v) \<Rightarrow> 'k \<Rightarrow> error + 'v" where
  "dict_get d k = (case d k of None \<Rightarrow> Inl KeyError | Some v \<Rightarrow> Inr v)"

text \<open>\<^verbatim>\<open>a / b\<close> on floats.\<close>

definition py_div :: "real \<Rightarrow> real \<Rightarrow> error + real" where
  "py_div a b = (if b = 0 then Inl ZeroDivisionError else Inr (a / b))"

text \<open>\<^verbatim>\<open>q.m_as(unit.degree)\<close> of an angle stored in radian.\<close>

definition m_as_degree :: "real \<Rightarrow> real" where
  "m_as_degree x = x * 180 / pi"

text \<open>
  \<^verbatim>\<open>x ** 0.5\<close> on a float: a float for \<open>x \<ge> 0\<close>, and a complex number (the
  principal root) for a negative \<open>x\<close>.
\<close>

datatype pynum = PyFloat real | PyComplex complex

definition pow_half :: "real \<Rightarrow> pynum" where
  "pow_half x = (if 0 \<le> x then PyFloat (sqrt x) else PyComplex (csqrt (complex_of_real x)))"

definition pynum_times :: "pynum \<Rightarrow> real \<Rightarrow> pynum" where
  "pynum_times p s = (case p of PyFloat r \<Rightarrow> PyFloat (r * s) | PyComplex c \<Rightarrow> PyComplex (c * complex_of_real s))"

subsection \<open>The data model\<close>

text \<open>
  \<^verbatim>\<open>TopologyKey\<close> and \<^verbatim>\<open>VirtualSiteKey\<close> (openff.interchange.models):
  the exporter reads \<^verbatim>\<open>atom_indices\<close> of both and \<^verbatim>\<open>type\<close> of the second.
\<close>

datatype key =
    TopologyKey (atom_indices: "int list")
  | VirtualSiteKey (atom_indices: "int list") (vs_type: string) (vs_match: string)

datatype potential_key = PotentialKey (key_id: string) (associated_handler: string)

type_synonym parameters = "string \<rightharpoonup> real"

text \<open>\<^verbatim>\<open>charge\<close> after \<^verbatim>\<open>.m_as(unit.e)\<close>: a float or a numpy array.\<close>

datatype magnitude = Scalar real | NdArray "real list"

text \<open>
  A potential handler. The classes of handlers differ in the attributes they have; the
  record has every attribute the exporter reads.
\<close>

record handler =
  slot_map :: "(key \<times> potential_key) list"
  potentials :: "(potential_key \<times> parameters) list"
  scale_14 :: real
  mixing_rule :: string
  charges :: "key \<rightharpoonup> magnitude"
  charges_with_virtual_sites :: "key \<rightharpoonup> real"

text \<open>
  An atom of the mdtraj topology; its \<^verbatim>\<open>index\<close> is its position in the list of
  atoms. \<^verbatim>\<open>residue_str\<close> is \<^verbatim>\<open>str(atom.residue)\<close>.
\<close>

record atom =
  element_symbol :: string
  element_mass :: real
  atomic_number :: int
  residue_index :: int
  residue_name :: string
  residue_str :: string

text \<open>
  The topology: atoms, bonds (the indices of \<^verbatim>\<open>bond.atom1\<close> and
  \<^verbatim>\<open>bond.atom2\<close>), and what the iterators of
  \<^verbatim>\<open>openff.interchange.components.mdtraj\<close> (outside the sources) yield on it,
  as tuples of atom indices.
\<close>

record topology =
  atoms :: "atom list"
  bonds :: "(int \<times> int) list"
  iterate_pairs :: "(int \<times> int) list"
  iterate_angles :: "(int \<times> int \<times> int) list"
  iterate_propers :: "(int \<times> int \<times> int \<times> int) list"
  iterate_impropers :: "(int \<times> int \<times> int \<times> int) list"

record interchange =
  handlers :: "string \<rightharpoonup> handler"
  mdtop :: topology
  positions :: "(real \<times> real \<times> real) list"
  box :: "(real list list) option"

text \<open>\<^verbatim>\<open>openff_sys[name]\<close> (\<^verbatim>\<open>Interchange.__getitem__\<close>) on a handler name.\<close>

definition getitem :: "interchange \<Rightarrow> string \<Rightarrow> error + handler" where
  "getitem openff_sys name = (case handlers openff_sys name of None \<Rightarrow> Inl LookupError | Some h \<Rightarrow> Inr h)"

text \<open>\<^verbatim>\<open>h.potentials[h.slot_map[k]].parameters[name]\<close>.\<close>

definition handler_parameter :: "handler \<Rightarrow> key \<Rightarrow> string \<Rightarrow> error + real" where
  "handler_parameter h k name =
     try_bind (dict_get (map_of (slot_map h)) k) (\<lambda>pot_key.
     try_bind (dict_get (map_of (potentials h)) pot_key) (\<lambda>params.
       dict_get params name))"

text \<open>\<^verbatim>\<open>openff_sys[handler_name].potentials[openff_sys[handler_name].slot_map[k]].parameters[name]\<close>.\<close>

definition system_parameter :: "interchange \<Rightarrow> string \<Rightarrow> key \<Rightarrow> string \<Rightarrow> error + real" where
  "system_parameter openff_sys handler_name k name =
     try_bind (getitem openff_sys handler_name) (\<lambda>h. handler_parameter h k name)"

subsection \<open>The topology file\<close>

datatype top_line =
    Text string
  | DefaultsLine int int string real real
  | AtomtypesLJ string string int real real string real real
  | AtomtypesVS string int real real string real real
  | AtomtypesBuck string int real real string real real real
  | AtomsLine int string int string string int real real
  | PairsLine int int int pynum pynum
  | BondsLine int int string real real
  | AnglesLine int int int string real real
  | ProperLine int int int int int real real int
  | RBLine int int int int int "real list"
  | ImproperLine int int int int int real real int
  | VirtualSites2 int int int int real
  | VirtualSites3 int int int int int "real list"
  | ExclusionsLine int "int list"

type_synonym written = "top_line list \<times> error option"

definition wrote :: "top_line list \<Rightarrow> written" where
  "wrote ls = (ls, None)"

definition raised :: "error \<Rightarrow> written" where
  "raised e = ([], Some e)"

text \<open>One formatted \<^verbatim>\<open>write\<close> whose arguments may raise.\<close>

definition write_or_raise :: "error + top_line \<Rightarrow> written" where
  "write_or_raise r = (case r of Inl e \<Rightarrow> raised e | Inr l \<Rightarrow> wrote [l])"

text \<open>Sequencing: what follows a raise is not run.\<close>

definition and_then :: "written \<Rightarrow> written \<Rightarrow> written" where
  "and_then w1 w2 = (case snd w1 of Some e \<Rightarrow> w1 | None \<Rightarrow> (fst w1 @ fst w2, snd w2))"

text \<open>A \<^verbatim>\<open>for\<close> loop whose body writes.\<close>

fun for_each :: "('a \<Rightarrow> written) \<Rightarrow> 'a list \<Rightarrow> written" where
  "for_each body [] = wrote []"
| "for_each body (x # xs) = and_then (body x) (for_each body xs)"

subsection \<open>\<^verbatim>\<open>_build_virtual_site_map\<close>\<close>

definition build_virtual_site_map :: "interchange \<Rightarrow> (key \<times> int) list" where
  "build_virtual_site_map openff_sys =
     (case handlers openff_sys ''VirtualSites'' of
        None \<Rightarrow> []
      | Some h \<Rightarrow>
          (let n_atoms = int (length (atoms (mdtop openff_sys)))
           in map (\<lambda>(index, virtual_site_key). (virtual_site_key, n_atoms + 1 + int index))
                (enumerate 0 (map fst (slot_map h)))))"

text \<open>\<^verbatim>\<open>interchange["VirtualSites"].slot_map.keys()\<close>, empty without the handler.\<close>

definition virtual_site_keys :: "interchange \<Rightarrow> key list" where
  "virtual_site_keys openff_sys =
     (case handlers openff_sys ''VirtualSites'' of None \<Rightarrow> [] | Some h \<Rightarrow> map fst (slot_map h))"

subsection \<open>\<^verbatim>\<open>_write_virtual_sites\<close>\<close>

text \<open>
  \<^verbatim>\<open>all(k.type in [...] for k in slot_map)\<close>: stops at the first key of another
  type; a key without \<^verbatim>\<open>type\<close> reached before that is an AttributeError.
\<close>

fun all_supported :: "key list \<Rightarrow> error + bool" where
  "all_supported [] = Inr True"
| "all_supported (TopologyKey a # ks) = Inl AttributeError"
| "all_supported (VirtualSiteKey a t m # ks) =
     (if t \<in> set [''BondCharge'', ''MonovalentLonePair'', ''DivalentLonePair'']
      then all_supported ks else Inr False)"

fun is_VirtualSiteKey :: "key \<Rightarrow> bool" where
  "is_VirtualSiteKey (VirtualSiteKey a t m) = True"
| "is_VirtualSiteKey (TopologyKey a) = False"

definition bond_charge_entry :: "handler \<Rightarrow> (key \<times> int) list \<Rightarrow> key \<Rightarrow> error + top_line" where
  "bond_charge_entry virtual_site_handler virtual_site_map virtual_site_key =
     (let reference_atoms = atom_indices virtual_site_key in
      if length reference_atoms \<noteq> 2 then Inl NotImplementedError else
      try_bind (dict_get (map_of virtual_site_map) virtual_site_key) (\<lambda>virtual_site_index.
      let atom1 = reference_atoms ! 0; atom2 = reference_atoms ! 1; func = 2 in
      try_bind (handler_parameter virtual_site_handler virtual_site_key ''distance'') (\<lambda>distance.
      let a = distance in
        Inr (VirtualSites2 virtual_site_index (atom1 + 1) (atom2 + 1) func a))))"

definition monovalent_entry :: "handler \<Rightarrow> (key \<times> int) list \<Rightarrow> key \<Rightarrow> error + top_line" where
  "monovalent_entry virtual_site_handler virtual_site_map virtual_site_key =
     (let reference_atoms = sort (atom_indices virtual_site_key) in
      if length reference_atoms \<noteq> 3 then Inl NotImplementedError else
      try_bind (dict_get (map_of virtual_site_map) virtual_site_key) (\<lambda>virtual_site_index.
      let atom1 = reference_atoms ! 0; atom2 = reference_atoms ! 1; atom3 = reference_atoms ! 2;
          func = 3 in
      try_bind (handler_parameter virtual_site_handler virtual_site_key ''outOfPlaneAngle'') (\<lambda>out_of_plane_angle.
      if out_of_plane_angle \<noteq> 0 then Inl NotImplementedError else
      try_bind (handler_parameter virtual_site_handler virtual_site_key ''distance'') (\<lambda>distance.
      try_bind (handler_parameter virtual_site_handler virtual_site_key ''inPlaneAngle'') (\<lambda>in_plane_angle_rad.
      let in_plane_angle = m_as_degree in_plane_angle_rad;
          in_plane_angle_transformed = 180 - in_plane_angle in
        Inr (VirtualSites3 virtual_site_index (atom1 + 1) (atom2 + 1) (atom3 + 1) func
               [in_plane_angle_transformed, distance]))))))"

definition divalent_entry :: "interchange \<Rightarrow> handler \<Rightarrow> (key \<times> int) list \<Rightarrow> key \<Rightarrow> error + top_line" where
  "divalent_entry openff_sys virtual_site_handler virtual_site_map virtual_site_key =
     (let reference_atoms = sort (atom_indices virtual_site_key) in
      if length reference_atoms \<noteq> 3 then Inl NotImplementedError else
      try_bind (dict_get (map_of virtual_site_map) virtual_site_key) (\<lambda>virtual_site_index.
      let atom1 = reference_atoms ! 0; atom2 = reference_atoms ! 1; atom3 = reference_atoms ! 2 in
      try_bind (system_parameter openff_sys ''Bonds'' (TopologyKey [atom1, atom2]) ''length'') (\<lambda>bond1_length.
      try_bind (system_parameter openff_sys ''Bonds'' (TopologyKey [atom1, atom3]) ''length'') (\<lambda>bond2_length.
      if bond1_length \<noteq> bond2_length then Inl NotImplementedError else
      try_bind (system_parameter openff_sys ''Angles'' (TopologyKey [atom2, atom1, atom3]) ''angle'') (\<lambda>angle.
      try_bind (handler_parameter virtual_site_handler virtual_site_key ''distance'') (\<lambda>distance.
      try_bind (handler_parameter virtual_site_handler virtual_site_key ''outOfPlaneAngle'') (\<lambda>out_of_plane_angle.
      if out_of_plane_angle = 0 then
        try_bind (py_div (- 1 * distance) (cos (angle / 2) * bond1_length)) (\<lambda>q.
        let func = 1; a = q / 2 in
          Inr (VirtualSites3 virtual_site_index (atom1 + 1) (atom2 + 1) (atom3 + 1) func [a, a]))
      else
        try_bind (py_div (- 1 * distance * cos out_of_plane_angle)
                         (2 * bond1_length * cos (angle / 2))) (\<lambda>a.
        try_bind (py_div (- 1 * distance * sin out_of_plane_angle)
                         (bond1_length ^ 2 * sin angle)) (\<lambda>c.
        let func = 4 in
          Inr (VirtualSites3 virtual_site_index (atom1 + 1) (atom2 + 1) (atom3 + 1) func [a, a, c]))))))))))"

text \<open>
  The body of the loop over the virtual sites, with the two flags
  \<^verbatim>\<open>started_virtual_sites2\<close> and \<^verbatim>\<open>started_virtual_sites3\<close>. The three
  \<^verbatim>\<open>if\<close> statements test one string against three different literals, so at
  most one of them runs. A section header is written before the entry is computed.
\<close>

definition virtual_site_body ::
  "interchange \<Rightarrow> handler \<Rightarrow> (key \<times> int) list \<Rightarrow> bool \<times> bool \<Rightarrow> key \<Rightarrow> written \<times> bool \<times> bool" where
  "virtual_site_body openff_sys virtual_site_handler virtual_site_map started virtual_site_key =
     (let started_virtual_sites2 = fst started; started_virtual_sites3 = snd started;
          header3 = (if \<not> started_virtual_sites3
                     then [Text ''\<newline>[ virtual_sites3 ]\<newline>; site  ai  aj  ak funct   a   b\<newline>'']
                     else [])
      in
      if vs_type virtual_site_key = ''BondCharge'' then
        (and_then
           (wrote (if \<not> started_virtual_sites2
                   then [Text ''\<newline>[ virtual_sites2 ]\<newline>; site  ai  aj  funct   a\<newline>'']
                   else []))
           (write_or_raise (bond_charge_entry virtual_site_handler virtual_site_map virtual_site_key)),
         True, started_virtual_sites3)
      else if vs_type virtual_site_key = ''MonovalentLonePair'' then
        (and_then (wrote header3)
           (write_or_raise (monovalent_entry virtual_site_handler virtual_site_map virtual_site_key)),
         started_virtual_sites2, True)
      else if vs_type virtual_site_key = ''DivalentLonePair'' then
        (and_then (wrote header3)
           (write_or_raise
              (divalent_entry openff_sys virtual_site_handler virtual_site_map virtual_site_key)),
         started_virtual_sites2, True)
      else (wrote [], started))"

fun virtual_site_loop ::
  "interchange \<Rightarrow> handler \<Rightarrow> (key \<times> int) list \<Rightarrow> bool \<times> bool \<Rightarrow> key list \<Rightarrow> written" where
  "virtual_site_loop openff_sys h vmap started [] = wrote []"
| "virtual_site_loop openff_sys h vmap started (k # ks) =
     (let r = virtual_site_body openff_sys h vmap started k
      in and_then (fst r) (virtual_site_loop openff_sys h vmap (snd r) ks))"

definition exclusions_entry :: "(key \<times> int) list \<Rightarrow> key \<Rightarrow> written" where
  "exclusions_entry virtual_site_map virtual_site_key =
     (let parent_indices = atom_indices virtual_site_key in
      write_or_raise
        (try_bind (dict_get (map_of virtual_site_map) virtual_site_key) (\<lambda>virtual_site_index.
           Inr (ExclusionsLine virtual_site_index (map (\<lambda>i. i + 1) parent_indices)))))"

definition write_virtual_sites :: "interchange \<Rightarrow> (key \<times> int) list \<Rightarrow> written" where
  "write_virtual_sites openff_sys virtual_site_map =
     (case handlers openff_sys ''VirtualSites'' of
        None \<Rightarrow> wrote []
      | Some virtual_site_handler \<Rightarrow>
          (case all_supported (map fst (slot_map virtual_site_handler)) of
             Inl e \<Rightarrow> raised e
           | Inr False \<Rightarrow> raised NotImplementedError
           | Inr True \<Rightarrow>
               and_then
                 (virtual_site_loop openff_sys virtual_site_handler virtual_site_map (False, False)
                    (sort_key vs_type
                       (filter is_VirtualSiteKey (map fst (slot_map virtual_site_handler)))))
              (and_then (wrote [Text ''\<newline>[ exclusions ]\<newline>''])
              (and_then
                 (for_each (exclusions_entry virtual_site_map) (map fst (slot_map virtual_site_handler)))
                 (wrote [Text ''\<newline>''])))))"

subsection \<open>Text of integers\<close>

text \<open>\<^verbatim>\<open>str(n)\<close> of an integer: its decimal digits, with a minus sign if negative.\<close>

definition digit_char :: "nat \<Rightarrow> char" where
  "digit_char d = ''0123456789'' ! d"

fun str_nat :: "nat \<Rightarrow> string" where
  "str_nat n = (if n < 10 then [digit_char n] else str_nat (n div 10) @ [digit_char (n mod 10)])"

declare str_nat.simps [simp del]

definition str_int :: "int \<Rightarrow> string" where
  "str_int i = (if i < 0 then CHR ''-'' # str_nat (nat (- i)) else str_nat (nat i))"

definition tab :: char where
  "tab = CHR 0x09"

subsection \<open>\<^verbatim>\<open>_build_typemap\<close>\<close>

text \<open>
  The typemap is a dict keyed by \<^verbatim>\<open>atom.index\<close>, filled in the order of the atoms:
  the list of its values, indexed by atom index.
\<close>

fun build_typemap_loop :: "(string \<rightharpoonup> int) \<Rightarrow> atom list \<Rightarrow> string list" where
  "build_typemap_loop elements [] = []"
| "build_typemap_loop elements (atom # rest) =
     (let element_symbol = element_symbol atom;
          n = (case elements element_symbol of None \<Rightarrow> 1 | Some c \<Rightarrow> c + 1);
          atom_type = element_symbol @ str_int n
      in atom_type # build_typemap_loop (elements(element_symbol \<mapsto> n)) rest)"

definition build_typemap :: "interchange \<Rightarrow> string list" where
  "build_typemap openff_sys = build_typemap_loop Map.empty (atoms (mdtop openff_sys))"

subsection \<open>\<^verbatim>\<open>_get_lj_parameters\<close> and \<^verbatim>\<open>_get_buck_parameters\<close>\<close>

definition get_parameters :: "interchange \<Rightarrow> string \<Rightarrow> int \<Rightarrow> error + parameters" where
  "get_parameters openff_sys handler_name atom_idx =
     try_bind (dict_get (handlers openff_sys) handler_name) (\<lambda>h.
     let atom_key = TopologyKey [atom_idx] in
     try_bind (dict_get (map_of (slot_map h)) atom_key) (\<lambda>identifier.
       dict_get (map_of (potentials h)) identifier))"

definition get_lj_parameters :: "interchange \<Rightarrow> int \<Rightarrow> error + parameters" where
  "get_lj_parameters openff_sys atom_idx = get_parameters openff_sys ''vdW'' atom_idx"

definition get_buck_parameters :: "interchange \<Rightarrow> int \<Rightarrow> error + parameters" where
  "get_buck_parameters openff_sys atom_idx = get_parameters openff_sys ''Buckingham-6'' atom_idx"

subsection \<open>\<^verbatim>\<open>_write_top_defaults\<close>\<close>

text \<open>The chain of tests on the mixing rule.\<close>

definition comb_rule_of :: "string \<Rightarrow> string \<Rightarrow> error + int" where
  "comb_rule_of rule handler_key =
     (if rule = ''lorentz-berthelot'' then Inr 2
      else if rule = ''geometric'' then Inr 3
      else if rule = ''buckingham'' \<and> handler_key = ''Buckingham-6'' then Inr 2
      else Inl UnsupportedExportError)"

definition defaults_line :: "interchange \<Rightarrow> int \<Rightarrow> string \<Rightarrow> handler \<Rightarrow> error + top_line" where
  "defaults_line openff_sys nbfunc handler_key h =
     (let scale_lj = scale_14 h; gen_pairs = ''no'' in
      try_bind (comb_rule_of (mixing_rule h) handler_key) (\<lambda>comb_rule.
      try_bind (dict_get (handlers openff_sys) ''Electrostatics'') (\<lambda>electrostatics.
        Inr (DefaultsLine nbfunc comb_rule gen_pairs scale_lj (scale_14 electrostatics)))))"

definition write_top_defaults :: "interchange \<Rightarrow> written" where
  "write_top_defaults openff_sys =
     and_then
       (wrote [Text ''[ defaults ]\<newline>'',
               Text (''; nbfunc'' @ tab # ''comb-rule'' @ tab # ''gen-pairs'' @ tab # ''fudgeLJ'' @ tab # ''fudgeQQ\<newline>'')])
       (case handlers openff_sys ''vdW'' of
          Some h \<Rightarrow> write_or_raise (defaults_line openff_sys 1 ''vdW'' h)
        | None \<Rightarrow>
            (case handlers openff_sys ''Buckingham-6'' of
               Some h \<Rightarrow> write_or_raise (defaults_line openff_sys 2 ''Buckingham-6'' h)
             | None \<Rightarrow> raised UnsupportedExportError))"

subsection \<open>\<^verbatim>\<open>_write_atomtypes\<close>\<close>

definition atomtypes_header :: "top_line list" where
  "atomtypes_header =
     [Text ''[ atomtypes ]\<newline>'',
      Text '';type, bondingtype, atomic_number, mass, charge, ptype, sigma, epsilon\<newline>'']"

definition atomtypes_lj_entry :: "interchange \<Rightarrow> nat \<times> string \<Rightarrow> written" where
  "atomtypes_lj_entry openff_sys item =
     (let atom_idx = fst item; atom_type = snd item;
          atom = atoms (mdtop openff_sys) ! atom_idx;
          mass = element_mass atom;
          atomic_number = atomic_number atom in
      and_then
        (write_or_raise
           (try_bind (get_lj_parameters openff_sys (int atom_idx)) (\<lambda>parameters.
            try_bind (dict_get parameters ''sigma'') (\<lambda>sigma.
            try_bind (dict_get parameters ''epsilon'') (\<lambda>epsilon.
              Inr (AtomtypesLJ atom_type ''XX'' atomic_number mass 0 ''A'' sigma epsilon))))))
        (wrote [Text ''\<newline>'']))"

definition atomtypes_vs_entry :: "interchange \<Rightarrow> key \<Rightarrow> written" where
  "atomtypes_vs_entry openff_sys virtual_site_key =
     (let atom_type = ''VS''; atomic_number = 0; mass = 0 in
      write_or_raise
        (try_bind (dict_get (handlers openff_sys) ''vdW'') (\<lambda>vdw_handler.
         try_bind (dict_get (map_of (slot_map vdw_handler)) virtual_site_key) (\<lambda>pot_key.
         try_bind (dict_get (map_of (potentials vdw_handler)) pot_key) (\<lambda>parameters.
         try_bind (dict_get parameters ''sigma'') (\<lambda>sigma.
         try_bind (dict_get parameters ''epsilon'') (\<lambda>epsilon.
           Inr (AtomtypesVS atom_type atomic_number mass 0 ''A'' sigma epsilon))))))))"

definition write_atomtypes_lj :: "interchange \<Rightarrow> string list \<Rightarrow> (key \<times> int) list \<Rightarrow> written" where
  "write_atomtypes_lj openff_sys typemap virtual_site_map =
     and_then (wrote atomtypes_header)
    (and_then (for_each (atomtypes_lj_entry openff_sys) (enumerate 0 typemap))
              (for_each (atomtypes_vs_entry openff_sys) (map fst virtual_site_map)))"

definition atomtypes_buck_entry :: "interchange \<Rightarrow> nat \<times> string \<Rightarrow> written" where
  "atomtypes_buck_entry openff_sys item =
     (let atom_idx = fst item; atom_type = snd item;
          atom = atoms (mdtop openff_sys) ! atom_idx in
      and_then
        (write_or_raise
           (try_bind (get_buck_parameters openff_sys (int atom_idx)) (\<lambda>parameters.
            try_bind (dict_get parameters ''A'') (\<lambda>a.
            try_bind (dict_get parameters ''B'') (\<lambda>b.
            try_bind (dict_get parameters ''C'') (\<lambda>c.
              Inr (AtomtypesBuck atom_type (atomic_number atom) (element_mass atom) 0 ''A'' a b c)))))))
        (wrote [Text ''\<newline>'']))"

definition write_atomtypes_buck :: "interchange \<Rightarrow> string list \<Rightarrow> written" where
  "write_atomtypes_buck openff_sys typemap =
     and_then (wrote atomtypes_header)
       (for_each (atomtypes_buck_entry openff_sys) (enumerate 0 typemap))"

definition write_atomtypes :: "interchange \<Rightarrow> string list \<Rightarrow> (key \<times> int) list \<Rightarrow> written" where
  "write_atomtypes openff_sys typemap virtual_site_map =
     (if handlers openff_sys ''vdW'' \<noteq> None then
        (if handlers openff_sys ''Buckingham-6'' \<noteq> None then raised UnsupportedExportError
         else write_atomtypes_lj openff_sys typemap virtual_site_map)
      else
        (if handlers openff_sys ''Buckingham-6'' \<noteq> None then write_atomtypes_buck openff_sys typemap
         else raised UnsupportedExportError))"

subsection \<open>\<^verbatim>\<open>_write_moleculetype\<close>\<close>

definition write_moleculetype :: written where
  "write_moleculetype =
     wrote [Text ''[ moleculetype ]\<newline>'',
            Text (''; Name'' @ tab # ''nrexcl\<newline>''),
            Text (''MOL'' @ tab # ''3\<newline>\<newline>'')]"

subsection \<open>\<^verbatim>\<open>_write_atoms\<close>: the sections \<^verbatim>\<open>[ atoms ]\<close> and \<^verbatim>\<open>[ pairs ]\<close>\<close>

text \<open>\<^verbatim>\<open>charge[0]\<close> when the charge is an array.\<close>

definition charge_of :: "magnitude \<Rightarrow> error + real" where
  "charge_of m =
     (case m of Scalar c \<Rightarrow> Inr c
      | NdArray cs \<Rightarrow> (case cs of [] \<Rightarrow> Inl IndexError | c # rest \<Rightarrow> Inr c))"

definition atoms_entry :: "string list \<Rightarrow> (key \<rightharpoonup> magnitude) \<Rightarrow> nat \<times> atom \<Rightarrow> error + top_line" where
  "atoms_entry typemap charge_map item =
     (let atom_idx = int (fst item); atom = snd item;
          mass = element_mass atom;
          atom_type = typemap ! fst item;
          res_idx = residue_index atom;
          res_name = residue_str atom;
          top_key = TopologyKey [atom_idx] in
      try_bind (dict_get charge_map top_key) (\<lambda>m.
      try_bind (charge_of m) (\<lambda>charge.
        Inr (AtomsLine (atom_idx + 1) atom_type (res_idx + 1) res_name atom_type (atom_idx + 1)
               charge mass))))"

text \<open>
  The entry of a virtual site. Its first statement reads the local \<^verbatim>\<open>charge\<close>,
  which is bound only if the loop over the atoms ran at least once.
\<close>

definition atoms_vs_entry :: "interchange \<Rightarrow> key \<times> int \<Rightarrow> error + top_line" where
  "atoms_vs_entry openff_sys item =
     (let virtual_site_key = fst item; atom_idx = snd item;
          atom_type = ''VS''; res_idx = 1; res_name = ''1'' in
      if atoms (mdtop openff_sys) = [] then Inl UnboundLocalError else
      try_bind (dict_get (handlers openff_sys) ''Electrostatics'') (\<lambda>charge_handler.
      try_bind (dict_get (charges_with_virtual_sites charge_handler) virtual_site_key) (\<lambda>charge.
      let mass = 0 in
        Inr (AtomsLine atom_idx atom_type res_idx res_name atom_type atom_idx charge mass))))"

definition write_atoms_section :: "interchange \<Rightarrow> string list \<Rightarrow> (key \<times> int) list \<Rightarrow> written" where
  "write_atoms_section openff_sys typemap virtual_site_map =
     and_then
       (wrote [Text ''[ atoms ]\<newline>'',
               Text '';num, type, resnum, resname, atomname, cgnr, q, m\<newline>''])
       (case dict_get (handlers openff_sys) ''Electrostatics'' of
          Inl e \<Rightarrow> raised e
        | Inr electrostatics \<Rightarrow>
            and_then
              (for_each (\<lambda>item. write_or_raise (atoms_entry typemap (charges electrostatics) item))
                 (enumerate 0 (atoms (mdtop openff_sys))))
              (for_each (\<lambda>item. write_or_raise (atoms_vs_entry openff_sys item)) virtual_site_map))"

text \<open>
  \<^verbatim>\<open>try: openff_sys["vdW"] ... except LookupError: openff_sys["Buckingham-6"] ...\<close>:
  the mixing rule and the 1-4 scale factor.
\<close>

definition pairs_settings :: "interchange \<Rightarrow> error + string \<times> real" where
  "pairs_settings openff_sys =
     (case getitem openff_sys ''vdW'' of
        Inr h \<Rightarrow> Inr (mixing_rule h, scale_14 h)
      | Inl e \<Rightarrow>
          try_bind (getitem openff_sys ''Buckingham-6'') (\<lambda>h. Inr (mixing_rule h, scale_14 h)))"

text \<open>
  The body of the loop over the pairs. \<^verbatim>\<open>sigma_mix\<close> is assigned under the two
  known mixing rules only; reading it otherwise is an UnboundLocalError.
\<close>

definition pairs_entry :: "interchange \<Rightarrow> string \<Rightarrow> real \<Rightarrow> int \<times> int \<Rightarrow> error + top_line" where
  "pairs_entry openff_sys rule scale_lj pair =
     (let indices = sort [fst pair, snd pair] in
      try_bind (get_lj_parameters openff_sys (indices ! 0)) (\<lambda>parameters1.
      try_bind (dict_get parameters1 ''sigma'') (\<lambda>sigma1.
      try_bind (dict_get parameters1 ''epsilon'') (\<lambda>epsilon1.
      try_bind (get_lj_parameters openff_sys (indices ! 1)) (\<lambda>parameters2.
      try_bind (dict_get parameters2 ''sigma'') (\<lambda>sigma2.
      try_bind (dict_get parameters2 ''epsilon'') (\<lambda>epsilon2.
      let epsilon_mix = pow_half (epsilon1 * epsilon2) in
      try_bind (if rule = ''lorentz-berthelot'' then Inr (PyFloat ((sigma1 + sigma2) * 0.5))
                else if rule = ''geometric'' then Inr (pow_half (sigma1 * sigma2))
                else Inl UnboundLocalError) (\<lambda>sigma_mix.
        Inr (PairsLine (indices ! 0 + 1) (indices ! 1 + 1) 1 sigma_mix
               (pynum_times epsilon_mix scale_lj))))))))))"

text \<open>
  \<^verbatim>\<open>pairs = {*_iterate_pairs(mdtop)}\<close>: the set of the tuples the iterator yields.
  The order in which a Python set is iterated is unspecified; the model iterates
  \<open>remdups\<close> of the yielded list, and no theorem below depends on that order.
\<close>

definition write_pairs_section :: "interchange \<Rightarrow> written" where
  "write_pairs_section openff_sys =
     and_then
       (wrote [Text ''[ pairs ]\<newline>'', Text (''; ai'' @ tab # ''aj'' @ tab # ''funct\<newline>'')])
       (case pairs_settings openff_sys of
          Inl e \<Rightarrow> raised e
        | Inr settings \<Rightarrow>
            (let pairs = remdups (iterate_pairs (mdtop openff_sys)) in
             for_each (\<lambda>pair. write_or_raise (pairs_entry openff_sys (fst settings) (snd settings) pair))
               pairs))"

definition write_atoms :: "interchange \<Rightarrow> string list \<Rightarrow> (key \<times> int) list \<Rightarrow> written" where
  "write_atoms openff_sys typemap virtual_site_map =
     and_then (write_atoms_section openff_sys typemap virtual_site_map)
       (write_pairs_section openff_sys)"


subsection \<open>\<^verbatim>\<open>_write_bonds\<close>\<close>

text \<open>
  The inner loop over the keys of the slot map: \<^verbatim>\<open>pot_key\<close> is assigned at every
  key whose atom indices are the bond's, in ascending or in descending order; it is the
  local's state, \<open>None\<close> while unbound.
\<close>

fun find_bond_pot_key ::
  "(key \<times> potential_key) list \<Rightarrow> int list \<Rightarrow> potential_key option \<Rightarrow> potential_key option" where
  "find_bond_pot_key [] indices pot_key = pot_key"
| "find_bond_pot_key (item # rest) indices pot_key =
     find_bond_pot_key rest indices
       (if atom_indices (fst item) = indices then Some (snd item)
        else if atom_indices (fst item) = rev indices then Some (snd item)
        else pot_key)"

text \<open>
  The body of the loop over the bonds. \<^verbatim>\<open>del pot_key\<close> ends it, so every bond
  starts with \<^verbatim>\<open>pot_key\<close> unbound.
\<close>

definition bonds_entry :: "handler \<Rightarrow> int \<times> int \<Rightarrow> error + top_line" where
  "bonds_entry bond_handler bond =
     (let indices = sort [fst bond, snd bond] in
      case find_bond_pot_key (slot_map bond_handler) indices None of
        None \<Rightarrow> Inl UnboundLocalError
      | Some pot_key \<Rightarrow>
          try_bind (dict_get (map_of (potentials bond_handler)) pot_key) (\<lambda>params.
          try_bind (dict_get params ''k'') (\<lambda>k.
          try_bind (dict_get params ''length'') (\<lambda>length.
            Inr (BondsLine (indices ! 0 + 1) (indices ! 1 + 1) ''1'' length k)))))"

definition write_bonds :: "interchange \<Rightarrow> written" where
  "write_bonds openff_sys =
     (case handlers openff_sys ''Bonds'' of
        None \<Rightarrow> wrote []
      | Some bond_handler \<Rightarrow>
          and_then
            (wrote [Text ''[ bonds ]\<newline>'',
                    Text (''; ai'' @ tab # ''aj'' @ tab # ''func'' @ tab # ''r'' @ tab # ''k\<newline>'')])
         (and_then
            (for_each (\<lambda>bond. write_or_raise (bonds_entry bond_handler bond)) (bonds (mdtop openff_sys)))
            (wrote [Text ''\<newline>\<newline>''])))"

subsection \<open>\<^verbatim>\<open>_write_bonds\<close> of \<^verbatim>\<open>openff/system/interop/internal.py\<close>\<close>

text \<open>
  The older writer keys the slot map by \<^verbatim>\<open>str(indices)\<close> of the sorted tuple; the
  text of a tuple of integers determines the tuple, so the model keeps the key type.
  It returns before writing when the handler has no potentials; the test is on the
  dict being empty.
\<close>

definition system_bonds_entry :: "handler \<Rightarrow> int \<times> int \<Rightarrow> error + top_line" where
  "system_bonds_entry bond_handler bond =
     (let indices = sort [fst bond, snd bond] in
      case map_of (slot_map bond_handler) (TopologyKey indices) of
        None \<Rightarrow> Inl Exception
      | Some pot_key \<Rightarrow>
          try_bind (dict_get (map_of (potentials bond_handler)) pot_key) (\<lambda>params.
          try_bind (dict_get params ''k'') (\<lambda>k.
          try_bind (dict_get params ''length'') (\<lambda>length.
            Inr (BondsLine (indices ! 0 + 1) (indices ! 1 + 1) ''1'' length k)))))"

definition system_write_bonds :: "interchange \<Rightarrow> (int \<times> int) list \<Rightarrow> written" where
  "system_write_bonds openff_sys top_mol_bonds =
     (case dict_get (handlers openff_sys) ''Bonds'' of
        Inl e \<Rightarrow> raised e
      | Inr bond_handler \<Rightarrow>
          if length (potentials bond_handler) = 0 then wrote []
          else
            and_then
              (wrote [Text ''[ bonds ]\<newline>'',
                      Text (''; ai'' @ tab # ''aj'' @ tab # ''func'' @ tab # ''r'' @ tab # ''k\<newline>'')])
           (and_then
              (for_each (\<lambda>bond. write_or_raise (system_bonds_entry bond_handler bond)) top_mol_bonds)
              (wrote [Text ''\<newline>\<newline>''])))"

subsection \<open>\<^verbatim>\<open>_write_angles\<close>\<close>

text \<open>
  The inner loop assigns \<^verbatim>\<open>pot_key\<close> at the keys whose atom indices are the
  angle's, in the iterator's order only. Nothing unbinds \<^verbatim>\<open>pot_key\<close> between two
  angles, so the local's state is threaded through the outer loop.
\<close>

fun find_pot_key ::
  "(key \<times> potential_key) list \<Rightarrow> int list \<Rightarrow> potential_key option \<Rightarrow> potential_key option" where
  "find_pot_key [] indices pot_key = pot_key"
| "find_pot_key (item # rest) indices pot_key =
     find_pot_key rest indices (if atom_indices (fst item) = indices then Some (snd item) else pot_key)"

definition angles_entry :: "handler \<Rightarrow> potential_key option \<Rightarrow> int list \<Rightarrow> error + top_line" where
  "angles_entry angle_handler pot_key indices =
     (case pot_key of
        None \<Rightarrow> Inl UnboundLocalError
      | Some pk \<Rightarrow>
          try_bind (dict_get (map_of (potentials angle_handler)) pk) (\<lambda>params.
          try_bind (dict_get params ''k'') (\<lambda>k.
          try_bind (dict_get params ''angle'') (\<lambda>angle.
          let theta = m_as_degree angle in
            Inr (AnglesLine (indices ! 0 + 1) (indices ! 1 + 1) (indices ! 2 + 1) ''1'' theta k)))))"

fun angles_loop :: "handler \<Rightarrow> potential_key option \<Rightarrow> (int \<times> int \<times> int) list \<Rightarrow> written" where
  "angles_loop angle_handler pot_key [] = wrote []"
| "angles_loop angle_handler pot_key (angle # rest) =
     (let indices = [fst angle, fst (snd angle), snd (snd angle)];
          pot_key' = find_pot_key (slot_map angle_handler) indices pot_key
      in and_then (write_or_raise (angles_entry angle_handler pot_key' indices))
           (angles_loop angle_handler pot_key' rest))"

definition write_angles :: "interchange \<Rightarrow> written" where
  "write_angles openff_sys =
     (case handlers openff_sys ''Angles'' of
        None \<Rightarrow> wrote []
      | Some angle_handler \<Rightarrow>
          and_then
            (wrote [Text ''[ angles ]\<newline>'',
                    Text (''; ai'' @ tab # ''aj'' @ tab # ''ak'' @ tab # ''func'' @ tab # ''r'' @ tab # ''k\<newline>'')])
         (and_then (angles_loop angle_handler None (iterate_angles (mdtop openff_sys)))
            (wrote [Text ''\<newline>\<newline>''])))"

subsection \<open>\<^verbatim>\<open>_write_dihedrals\<close>\<close>

text \<open>\<^verbatim>\<open>int(x)\<close> of a float: truncation towards zero.\<close>

definition py_int :: "real \<Rightarrow> int" where
  "py_int x = (if 0 \<le> x then \<lfloor>x\<rfloor> else \<lceil>x\<rceil>)"

definition quartet :: "int \<times> int \<times> int \<times> int \<Rightarrow> int list" where
  "quartet q = [fst q, fst (snd q), fst (snd (snd q)), snd (snd (snd q))]"

definition proper_entry :: "handler \<Rightarrow> int list \<Rightarrow> key \<times> potential_key \<Rightarrow> written" where
  "proper_entry proper_torsion_handler indices item =
     (if atom_indices (fst item) = indices then
        write_or_raise
          (try_bind (dict_get (map_of (potentials proper_torsion_handler)) (snd item)) (\<lambda>params.
           try_bind (dict_get params ''k'') (\<lambda>k.
           try_bind (dict_get params ''periodicity'') (\<lambda>p.
           let periodicity = py_int p in
           try_bind (dict_get params ''phase'') (\<lambda>ph.
           let phase = m_as_degree ph;
               idivf = (case params ''idivf'' of Some d \<Rightarrow> py_int d | None \<Rightarrow> 1) in
           try_bind (py_div k (real_of_int idivf)) (\<lambda>k_over_idivf.
             Inr (ProperLine (indices ! 0 + 1) (indices ! 1 + 1) (indices ! 2 + 1) (indices ! 3 + 1)
                    1 phase k_over_idivf periodicity)))))))
      else wrote [])"

definition rb_entry :: "handler \<Rightarrow> int list \<Rightarrow> key \<times> potential_key \<Rightarrow> written" where
  "rb_entry rb_torsion_handler indices item =
     (if atom_indices (fst item) = indices then
        write_or_raise
          (try_bind (dict_get (map_of (potentials rb_torsion_handler)) (snd item)) (\<lambda>params.
           try_bind (dict_get params ''C0'') (\<lambda>c0.
           try_bind (dict_get params ''C1'') (\<lambda>c1.
           try_bind (dict_get params ''C2'') (\<lambda>c2.
           try_bind (dict_get params ''C3'') (\<lambda>c3.
           try_bind (dict_get params ''C4'') (\<lambda>c4.
           try_bind (dict_get params ''C5'') (\<lambda>c5.
             Inr (RBLine (indices ! 0 + 1) (indices ! 1 + 1) (indices ! 2 + 1) (indices ! 3 + 1)
                    3 [c0, c1, c2, c3, c4, c5])))))))))
      else wrote [])"

definition improper_entry :: "handler \<Rightarrow> int list \<Rightarrow> key \<times> potential_key \<Rightarrow> written" where
  "improper_entry improper_torsion_handler indices item =
     (if indices = atom_indices (fst item) then
        write_or_raise
          (try_bind (dict_get (map_of (potentials improper_torsion_handler)) (snd item)) (\<lambda>params.
           try_bind (dict_get params ''k'') (\<lambda>k.
           try_bind (dict_get params ''periodicity'') (\<lambda>p.
           let periodicity = py_int p in
           try_bind (dict_get params ''phase'') (\<lambda>ph.
           let phase = m_as_degree ph in
           try_bind (dict_get params ''idivf'') (\<lambda>d.
           let idivf = py_int d in
           try_bind (py_div k (real_of_int idivf)) (\<lambda>k_over_idivf.
             Inr (ImproperLine (indices ! 0 + 1) (indices ! 1 + 1) (indices ! 2 + 1) (indices ! 3 + 1)
                    4 phase k_over_idivf periodicity))))))))
      else wrote [])"

text \<open>
  \<^verbatim>\<open>handlers.get(name, [])\<close> followed by \<^verbatim>\<open>if handler:\<close>: a handler that is
  present is true, the default \<^verbatim>\<open>[]\<close> is false.
\<close>

definition for_handler :: "interchange \<Rightarrow> string \<Rightarrow> (handler \<Rightarrow> written) \<Rightarrow> written" where
  "for_handler openff_sys name body =
     (case handlers openff_sys name of None \<Rightarrow> wrote [] | Some h \<Rightarrow> body h)"

definition write_dihedrals :: "interchange \<Rightarrow> written" where
  "write_dihedrals openff_sys =
     (if handlers openff_sys ''ProperTorsions'' = None \<and> handlers openff_sys ''RBTorsions'' = None
         \<and> handlers openff_sys ''ImproperTorsions'' = None
      then wrote []
      else
        and_then
          (wrote [Text ''[ dihedrals ]\<newline>'', Text '';    i      j      k      l   func\<newline>''])
       (and_then
          (for_each
             (\<lambda>proper.
                and_then
                  (for_handler openff_sys ''ProperTorsions''
                     (\<lambda>h. for_each (proper_entry h (quartet proper)) (slot_map h)))
                  (for_handler openff_sys ''RBTorsions''
                     (\<lambda>h. for_each (rb_entry h (quartet proper)) (slot_map h))))
             (iterate_propers (mdtop openff_sys)))
          (for_each
             (\<lambda>improper.
                for_handler openff_sys ''ImproperTorsions''
                  (\<lambda>h. for_each (improper_entry h (quartet improper)) (slot_map h)))
             (iterate_impropers (mdtop openff_sys)))))"

subsection \<open>\<^verbatim>\<open>_write_valence\<close>, \<^verbatim>\<open>_write_system\<close> and \<^verbatim>\<open>to_top\<close>\<close>

definition write_valence :: "interchange \<Rightarrow> written" where
  "write_valence openff_sys =
     and_then (write_bonds openff_sys) (and_then (write_angles openff_sys) (write_dihedrals openff_sys))"

definition write_system :: written where
  "write_system =
     wrote [Text ''[ system ]\<newline>'', Text ''; name \<newline>'', Text ''System name\<newline>\<newline>'',
            Text ''[ molecules ]\<newline>'', Text (''; Compound'' @ tab # ''nmols\<newline>''),
            Text (''MOL'' @ tab # ''1''), Text ''\<newline>'']"

text \<open>
  \<^verbatim>\<open>to_top\<close> opens the target in mode \<^verbatim>\<open>"w"\<close> before anything else: whatever
  the file held is gone, and its content is what the writers wrote until the export
  returned or raised.
\<close>

definition to_top :: "interchange \<Rightarrow> written" where
  "to_top openff_sys =
     and_then (wrote [Text ''; Generated by OpenFF Interchange\<newline>''])
    (and_then (write_top_defaults openff_sys)
       (let typemap = build_typemap openff_sys;
            virtual_site_map = build_virtual_site_map openff_sys in
        and_then (write_atomtypes openff_sys typemap virtual_site_map)
       (and_then write_moleculetype
       (and_then (write_atoms openff_sys typemap virtual_site_map)
       (and_then (write_valence openff_sys)
       (and_then (write_virtual_sites openff_sys virtual_site_map)
          write_system))))))"

subsection \<open>Text of numbers in the coordinate file\<close>

text \<open>
  The coordinate file is modelled as its text. \<^verbatim>\<open>%5d\<close> and \<^verbatim>\<open>%5s\<close> pad on the
  left to the width, \<^verbatim>\<open>%-5s\<close> on the right; a text longer than the width is
  written whole.
\<close>

definition lpad :: "nat \<Rightarrow> string \<Rightarrow> string" where
  "lpad w s = replicate (w - length s) CHR '' '' @ s"

definition rpad :: "nat \<Rightarrow> string \<Rightarrow> string" where
  "rpad w s = s @ replicate (w - length s) CHR '' ''"

text \<open>
  A float with \<open>p\<close> decimals is a sign and a natural number of units of \<open>10\<^sup>-\<^sup>p\<close>; the
  sign is kept when the number of units is zero, as a float keeps the sign of zero.
  \<^verbatim>\<open>np.round(x, p)\<close> rounds to the nearest such float, a tie to the even one.
\<close>

type_synonym decimal = "bool \<times> nat"

definition round_half_even :: "real \<Rightarrow> int" where
  "round_half_even r =
     (let f = \<lfloor>r\<rfloor> in
      if r - of_int f < 1 / 2 then f
      else if r - of_int f > 1 / 2 then f + 1
      else if even f then f else f + 1)"

definition np_round :: "nat \<Rightarrow> real \<Rightarrow> decimal" where
  "np_round p x = (x < 0, nat (round_half_even (\<bar>x\<bar> * 10 ^ p)))"

definition decimal_value :: "nat \<Rightarrow> decimal \<Rightarrow> real" where
  "decimal_value p d = (if fst d then - 1 else 1) * real (snd d) / 10 ^ p"

text \<open>
  \<^verbatim>\<open>"%w.pf" % v\<close> for a float \<open>v\<close> with \<open>p\<close> decimals: the sign, the integer part, and
  for \<open>p > 0\<close> the point and \<open>p\<close> digits, padded on the left to the width \<open>w\<close>. For any
  other float, \<^verbatim>\<open>%w.pf\<close> writes the text of the float rounded to \<open>p\<close> decimals.
\<close>

definition fixed_text :: "nat \<Rightarrow> decimal \<Rightarrow> string" where
  "fixed_text p d =
     (if fst d then ''-'' else '''') @ str_nat (snd d div 10 ^ p)
     @ (if p = 0 then ''''
        else CHR ''.'' # replicate (p - length (str_nat (snd d mod 10 ^ p))) CHR ''0''
             @ str_nat (snd d mod 10 ^ p))"

definition percent_f :: "nat \<Rightarrow> nat \<Rightarrow> decimal \<Rightarrow> string" where
  "percent_f w p d = lpad w (fixed_text p d)"

subsection \<open>\<^verbatim>\<open>to_gro\<close>\<close>

text \<open>One record: \<^verbatim>\<open>"%5d%-5s%5s%5d%{n+5}.{n}f%{n+5}.{n}f%{n+5}.{n}f\n"\<close>.\<close>

definition gro_record ::
  "nat \<Rightarrow> int \<Rightarrow> string \<Rightarrow> string \<Rightarrow> int \<Rightarrow> decimal \<times> decimal \<times> decimal \<Rightarrow> string" where
  "gro_record n residue_idx residue_name' atom_name atom_index xyz =
     lpad 5 (str_int residue_idx) @ rpad 5 residue_name' @ lpad 5 atom_name
     @ lpad 5 (str_int atom_index)
     @ percent_f (n + 5) n (fst xyz) @ percent_f (n + 5) n (fst (snd xyz))
     @ percent_f (n + 5) n (snd (snd xyz)) @ ''\<newline>''"

text \<open>
  The record of an atom. \<^verbatim>\<open>rounded_positions[atom.index, 0]\<close> is an IndexError when
  the positions have fewer rows than the topology has atoms.
\<close>

definition gro_atom_record ::
  "nat \<Rightarrow> string list \<Rightarrow> (decimal \<times> decimal \<times> decimal) list \<Rightarrow> nat \<times> atom \<Rightarrow> error + string" where
  "gro_atom_record n typemap rounded_positions item =
     (let index = fst item; atom = snd item;
          residue_idx = (residue_index atom + 1) mod 100000;
          residue_name' = take 5 (residue_name atom);
          atom_name = typemap ! index;
          atom_index = (int index + 1) mod 100000
      in if index < length rounded_positions
         then Inr (gro_record n residue_idx residue_name' atom_name atom_index (rounded_positions ! index))
         else Inl IndexError)"

text \<open>The record of a virtual site: the coordinates are the literal \<^verbatim>\<open>0.0\<close>.\<close>

definition gro_virtual_site_record :: "nat \<Rightarrow> key \<times> int \<Rightarrow> string" where
  "gro_virtual_site_record n item =
     (let atom_name = ''VS''; residue_idx = 1; residue_name' = ''''; atom_index = snd item
      in gro_record n residue_idx residue_name' atom_name atom_index
           (np_round n 0, np_round n 0, np_round n 0))"

text \<open>\<^verbatim>\<open>for ... : gro.write(...)\<close> over records that may raise: the text written.\<close>

fun records :: "('a \<Rightarrow> error + string) \<Rightarrow> 'a list \<Rightarrow> error + string" where
  "records f [] = Inr ''''"
| "records f (x # xs) =
     try_bind (f x) (\<lambda>line. try_bind (records f xs) (\<lambda>rest. Inr (line @ rest)))"

text \<open>
  The box line. The box is a 3 by 3 array; without one the writer takes 11 times the
  identity. The values off the diagonal are written only if one of them is not zero.
\<close>

definition off_diagonal :: "(nat \<times> nat) list" where
  "off_diagonal = [(0, 1), (0, 2), (1, 0), (1, 2), (2, 0), (2, 1)]"

definition gro_box :: "real list list option \<Rightarrow> string" where
  "gro_box b =
     (let box = (case b of None \<Rightarrow> [[11, 0, 0], [0, 11, 0], [0, 0, 11]] | Some m \<Rightarrow> m);
          diagonal = concat (map (\<lambda>i. percent_f 11 7 (np_round 7 (box ! i ! i))) [0, 1, 2])
      in if list_all (\<lambda>ij. box ! fst ij ! snd ij = 0) off_diagonal
         then diagonal
         else diagonal
              @ concat (map (\<lambda>ij. percent_f 11 7 (np_round 7 (box ! fst ij ! snd ij))) off_diagonal))"

text \<open>
  \<^verbatim>\<open>to_gro\<close>: the text of the file when the writer returns. (What is left in the
  file when it raises is not modelled.)
\<close>

definition to_gro :: "interchange \<Rightarrow> nat \<Rightarrow> error + string" where
  "to_gro openff_sys decimal =
     (let rounded_positions =
            map (\<lambda>r. (np_round decimal (fst r), np_round decimal (fst (snd r)), np_round decimal (snd (snd r))))
              (positions openff_sys);
          n = decimal;
          typemap = build_typemap openff_sys;
          virtual_site_map = build_virtual_site_map openff_sys;
          n_particles = int (length (positions openff_sys)) + int (length virtual_site_map)
      in try_bind (records (gro_atom_record n typemap rounded_positions)
                     (enumerate 0 (atoms (mdtop openff_sys)))) (\<lambda>atom_records.
         Inr (''Generated by OpenFF\<newline>'' @ str_int n_particles @ ''\<newline>''
              @ atom_records
              @ concat (map (gro_virtual_site_record n) virtual_site_map)
              @ gro_box (box openff_sys) @ ''\<newline>'')))"

subsection \<open>\<^verbatim>\<open>from_gro\<close>\<close>

text \<open>\<^verbatim>\<open>file.readline()\<close>: the text up to and with the next line break, and the rest.\<close>

definition readline :: "string \<Rightarrow> string \<times> string" where
  "readline s =
     (case dropWhile (\<lambda>c. c \<noteq> CHR ''\<newline>'') s of
        [] \<Rightarrow> (s, '''')
      | c # rest \<Rightarrow> (takeWhile (\<lambda>c. c \<noteq> CHR ''\<newline>'') s @ [c], rest))"

text \<open>\<^verbatim>\<open>s[a:b]\<close> for \<open>0 \<le> a \<le> b\<close>.\<close>

definition slice :: "nat \<Rightarrow> nat \<Rightarrow> string \<Rightarrow> string" where
  "slice a b s = take (b - a) (drop a s)"

text \<open>
  \<^verbatim>\<open>int(s)\<close> and \<^verbatim>\<open>float(s)\<close> on texts of ASCII characters: white space around
  the number is dropped, then come an optional sign and decimal digits, for a float
  with an optional point among them. The other texts Python reads as numbers (with
  an exponent, \<^verbatim>\<open>inf\<close>, \<^verbatim>\<open>nan\<close>, underscores between digits) are not in the
  model, which has ValueError for them; the writer produces none of them.
\<close>

definition is_space :: "char \<Rightarrow> bool" where
  "is_space c \<longleftrightarrow> c \<in> set [CHR '' '', CHR 0x09, CHR 0x0A, CHR 0x0B, CHR 0x0C, CHR 0x0D,
                              CHR 0x1C, CHR 0x1D, CHR 0x1E, CHR 0x1F]"

definition is_digit :: "char \<Rightarrow> bool" where
  "is_digit c \<longleftrightarrow> c \<in> set ''0123456789''"

definition strip :: "string \<Rightarrow> string" where
  "strip s = rev (dropWhile is_space (rev (dropWhile is_space s)))"

definition digits_value :: "string \<Rightarrow> nat" where
  "digits_value s = foldl (\<lambda>acc c. 10 * acc + (of_char c - 48)) 0 s"

definition unsigned :: "string \<Rightarrow> string" where
  "unsigned t = (case t of [] \<Rightarrow> [] | c # r \<Rightarrow> if c = CHR ''-'' \<or> c = CHR ''+'' then r else t)"

definition is_negative :: "string \<Rightarrow> bool" where
  "is_negative t = (case t of [] \<Rightarrow> False | c # r \<Rightarrow> c = CHR ''-'')"

definition int_of_str :: "string \<Rightarrow> error + int" where
  "int_of_str s =
     (let t = strip s; u = unsigned t in
      if u \<noteq> [] \<and> list_all is_digit u
      then Inr ((if is_negative t then - 1 else 1) * int (digits_value u))
      else Inl ValueError)"

definition float_of_str :: "string \<Rightarrow> error + real" where
  "float_of_str s =
     (let t = strip s; u = unsigned t;
          int_part = takeWhile is_digit u;
          rest = dropWhile is_digit u;
          frac_part = (case rest of [] \<Rightarrow> [] | c # r \<Rightarrow> r)
      in if (rest = [] \<or> hd rest = CHR ''.'') \<and> list_all is_digit frac_part
            \<and> (int_part \<noteq> [] \<or> frac_part \<noteq> [])
         then Inr ((if is_negative t then - 1 else 1)
                   * (real (digits_value int_part)
                      + real (digits_value frac_part) / 10 ^ length frac_part))
         else Inl ValueError)"

text \<open>\<^verbatim>\<open>s.split()\<close>: the maximal runs of characters that are not white space.\<close>

fun split_from :: "string \<Rightarrow> string \<Rightarrow> string list" where
  "split_from word [] = (if word = [] then [] else [word])"
| "split_from word (c # cs) =
     (if is_space c then (if word = [] then split_from [] cs else word # split_from [] cs)
      else split_from (word @ [c]) cs)"

definition split :: "string \<Rightarrow> string list" where
  "split s = split_from [] s"

text \<open>\<^verbatim>\<open>_infer_coord_precision\<close>, on the text of the file.\<close>

definition infer_coord_precision :: "string \<Rightarrow> error + int" where
  "infer_coord_precision file_in =
     (let atom_line = fst (readline (snd (readline (snd (readline file_in)))));
          period_indices = map fst (filter (\<lambda>ix. snd ix = CHR ''.'') (enumerate 0 atom_line))
      in if length period_indices < 2 then Inl IndexError
         else
           (let spacing_between_periods =
                  int (period_indices ! (length period_indices - 1))
                  - int (period_indices ! (length period_indices - 2));
                precision = spacing_between_periods - 5
            in Inr precision))"

text \<open>
  The loop over the atom records: every record is one line, read at the columns that
  follow from the width of a coordinate.
\<close>

fun read_records :: "nat \<Rightarrow> nat \<Rightarrow> string \<Rightarrow> error + (real \<times> real \<times> real) list \<times> string" where
  "read_records w 0 gro_file = Inr ([], gro_file)"
| "read_records w (Suc k) gro_file =
     (let line = fst (readline gro_file) in
      try_bind (int_of_str (slice 0 5 line)) (\<lambda>residue_index.
      try_bind (int_of_str (slice 15 20 line)) (\<lambda>atom_index.
      try_bind (float_of_str (slice 20 (20 + w) line)) (\<lambda>x.
      try_bind (float_of_str (slice (20 + w) (20 + 2 * w) line)) (\<lambda>y.
      try_bind (float_of_str (slice (20 + 2 * w) (20 + 3 * w) line)) (\<lambda>z.
      try_bind (read_records w k (snd (readline gro_file))) (\<lambda>r.
        Inr ((x, y, z) # fst r, snd r))))))))"

fun floats :: "string list \<Rightarrow> error + real list" where
  "floats [] = Inr []"
| "floats (val # vals) =
     try_bind (float_of_str val) (\<lambda>v. try_bind (floats vals) (\<lambda>vs. Inr (v # vs)))"

record gro_contents =
  gro_positions :: "(real \<times> real \<times> real) list"
  gro_box_vectors :: "real list list"

text \<open>
  \<^verbatim>\<open>from_gro\<close>. The precision is inferred first, on a pass of its own. A negative
  number of atoms is a ValueError (of \<^verbatim>\<open>np.zeros\<close>). \<^verbatim>\<open>box\<close> is assigned only when
  the box line has three values; otherwise reading it is an UnboundLocalError.
\<close>

definition from_gro :: "string \<Rightarrow> error + gro_contents" where
  "from_gro content =
     try_bind (infer_coord_precision content) (\<lambda>precision.
     let coordinate_width = precision + 5;
         gro_file = snd (readline content) in
     try_bind (int_of_str (fst (readline gro_file))) (\<lambda>n_atoms.
     if n_atoms < 0 then Inl ValueError else
     try_bind (read_records (nat coordinate_width) (nat n_atoms) (snd (readline gro_file))) (\<lambda>r.
     let coordinates = fst r;
         box_line = fst (readline (snd r)) in
     try_bind (floats (split box_line)) (\<lambda>parsed_box.
     if length parsed_box = 3
     then Inr \<lparr>gro_positions = coordinates,
               gro_box_vectors = [[parsed_box ! 0, 0, 0], [0, parsed_box ! 1, 0], [0, 0, parsed_box ! 2]]\<rparr>
     else Inl UnboundLocalError))))"

subsection \<open>Example systems\<close>

definition no_handler :: handler where
  "no_handler = \<lparr>slot_map = [], potentials = [], scale_14 = 1, mixing_rule = '''',
     charges = Map.empty, charges_with_virtual_sites = Map.empty\<rparr>"

definition water_atoms :: "atom list" where
  "water_atoms =
     [\<lparr>element_symbol = ''O'', element_mass = 15999 / 1000, atomic_number = 8,
        residue_index = 0, residue_name = ''HOH'', residue_str = ''HOH1''\<rparr>,
      \<lparr>element_symbol = ''H'', element_mass = 1008 / 1000, atomic_number = 1,
        residue_index = 0, residue_name = ''HOH'', residue_str = ''HOH1''\<rparr>,
      \<lparr>element_symbol = ''H'', element_mass = 1008 / 1000, atomic_number = 1,
        residue_index = 0, residue_name = ''HOH'', residue_str = ''HOH1''\<rparr>]"

definition water_bonds :: "real \<Rightarrow> handler" where
  "water_bonds l2 = no_handler
     \<lparr>slot_map := [(TopologyKey [0, 1], PotentialKey ''b1'' ''Bonds''),
                   (TopologyKey [0, 2], PotentialKey ''b2'' ''Bonds'')],
      potentials := [(PotentialKey ''b1'' ''Bonds'', [''k'' \<mapsto> 1000, ''length'' \<mapsto> 1 / 10]),
                     (PotentialKey ''b2'' ''Bonds'', [''k'' \<mapsto> 1000, ''length'' \<mapsto> l2])]\<rparr>"

definition water_angles :: handler where
  "water_angles = no_handler
     \<lparr>slot_map := [(TopologyKey [1, 0, 2], PotentialKey ''a1'' ''Angles'')],
      potentials := [(PotentialKey ''a1'' ''Angles'', [''k'' \<mapsto> 300, ''angle'' \<mapsto> pi / 2])]\<rparr>"

definition lone_pair :: "string \<Rightarrow> key" where
  "lone_pair kind = VirtualSiteKey [1, 0, 2] kind ''once''"

definition water_virtual_sites :: "string \<Rightarrow> real \<Rightarrow> handler" where
  "water_virtual_sites kind oop = no_handler
     \<lparr>slot_map := [(lone_pair kind, PotentialKey ''v1'' ''VirtualSites'')],
      potentials := [(PotentialKey ''v1'' ''VirtualSites'',
                      [''distance'' \<mapsto> 7 / 100, ''outOfPlaneAngle'' \<mapsto> oop, ''inPlaneAngle'' \<mapsto> pi / 3])]\<rparr>"

definition water_vdw :: "string \<Rightarrow> handler" where
  "water_vdw kind = no_handler
     \<lparr>slot_map := [(TopologyKey [0], PotentialKey ''n1'' ''vdW''),
                   (TopologyKey [1], PotentialKey ''n2'' ''vdW''),
                   (TopologyKey [2], PotentialKey ''n2'' ''vdW''),
                   (lone_pair kind, PotentialKey ''n3'' ''vdW'')],
      potentials := [(PotentialKey ''n1'' ''vdW'', [''sigma'' \<mapsto> 3 / 10, ''epsilon'' \<mapsto> 4]),
                     (PotentialKey ''n2'' ''vdW'', [''sigma'' \<mapsto> 1 / 10, ''epsilon'' \<mapsto> 1]),
                     (PotentialKey ''n3'' ''vdW'', [''sigma'' \<mapsto> 1, ''epsilon'' \<mapsto> 0])],
      scale_14 := 1 / 2,
      mixing_rule := ''lorentz-berthelot''\<rparr>"

definition water_electrostatics :: "string \<Rightarrow> handler" where
  "water_electrostatics kind = no_handler
     \<lparr>scale_14 := 5 / 6,
      charges := [TopologyKey [0] \<mapsto> Scalar 0, TopologyKey [1] \<mapsto> Scalar (4 / 10),
                  TopologyKey [2] \<mapsto> NdArray [4 / 10]],
      charges_with_virtual_sites := [lone_pair kind \<mapsto> - 8 / 10]\<rparr>"

definition water_topology :: topology where
  "water_topology = \<lparr>atoms = water_atoms, bonds = [(0, 1), (2, 0)], iterate_pairs = [],
     iterate_angles = [(1, 0, 2)], iterate_propers = [], iterate_impropers = []\<rparr>"

text \<open>A water molecule with one lone-pair site of the given kind.\<close>

definition water :: "string \<Rightarrow> real \<Rightarrow> real \<Rightarrow> interchange" where
  "water kind l2 oop =
     \<lparr>handlers = [''Bonds'' \<mapsto> water_bonds l2, ''Angles'' \<mapsto> water_angles, ''vdW'' \<mapsto> water_vdw kind,
                   ''Electrostatics'' \<mapsto> water_electrostatics kind,
                   ''VirtualSites'' \<mapsto> water_virtual_sites kind oop],
      mdtop = water_topology,
      positions = [(0, 0, 0), (1 / 10, 0, 0), (0, 1 / 10, 0)],
      box = None\<rparr>"


text \<open>The same molecule with its lone-pair site and a Buckingham-6 handler beside vdW.\<close>

definition water_lj_and_buckingham :: interchange where
  "water_lj_and_buckingham =
     (water ''DivalentLonePair'' (1 / 10) 0)
       \<lparr>handlers := (handlers (water ''DivalentLonePair'' (1 / 10) 0))
                      (''Buckingham-6'' \<mapsto> no_handler\<lparr>mixing_rule := ''buckingham''\<rparr>)\<rparr>"


text \<open>
  The molecule without its lone-pair site, with a Buckingham-6 handler in place of vdW,
  under the mixing rule \<^verbatim>\<open>buckingham\<close>.
\<close>

definition water_buckingham :: interchange where
  "water_buckingham =
     (water ''DivalentLonePair'' (1 / 10) 0)
       \<lparr>handlers := (handlers (water ''DivalentLonePair'' (1 / 10) 0))
                      (''vdW'' := None, ''VirtualSites'' := None,
                       ''Buckingham-6'' \<mapsto> no_handler
                          \<lparr>slot_map := [(TopologyKey [0], PotentialKey ''u1'' ''Buckingham-6''),
                                        (TopologyKey [1], PotentialKey ''u2'' ''Buckingham-6''),
                                        (TopologyKey [2], PotentialKey ''u2'' ''Buckingham-6'')],
                           potentials := [(PotentialKey ''u1'' ''Buckingham-6'', [''A'' \<mapsto> 1, ''B'' \<mapsto> 2, ''C'' \<mapsto> 3]),
                                          (PotentialKey ''u2'' ''Buckingham-6'', [''A'' \<mapsto> 4, ''B'' \<mapsto> 5, ''C'' \<mapsto> 6])],
                           mixing_rule := ''buckingham''\<rparr>)\<rparr>"

text \<open>
  A chain of four atoms (hydrogen peroxide) whose pair iterator yields the pair of
  its ends once per torsion path found, here twice.
\<close>

definition peroxide_atoms :: "atom list" where
  "peroxide_atoms =
     [\<lparr>element_symbol = ''H'', element_mass = 1008 / 1000, atomic_number = 1,
        residue_index = 0, residue_name = ''PER'', residue_str = ''PER1''\<rparr>,
      \<lparr>element_symbol = ''O'', element_mass = 15999 / 1000, atomic_number = 8,
        residue_index = 0, residue_name = ''PER'', residue_str = ''PER1''\<rparr>,
      \<lparr>element_symbol = ''O'', element_mass = 15999 / 1000, atomic_number = 8,
        residue_index = 0, residue_name = ''PER'', residue_str = ''PER1''\<rparr>,
      \<lparr>element_symbol = ''H'', element_mass = 1008 / 1000, atomic_number = 1,
        residue_index = 0, residue_name = ''PER'', residue_str = ''PER1''\<rparr>]"

definition peroxide_vdw :: "string \<Rightarrow> handler" where
  "peroxide_vdw rule = no_handler
     \<lparr>slot_map := [(TopologyKey [0], PotentialKey ''n2'' ''vdW''),
                   (TopologyKey [1], PotentialKey ''n1'' ''vdW''),
                   (TopologyKey [2], PotentialKey ''n1'' ''vdW''),
                   (TopologyKey [3], PotentialKey ''n3'' ''vdW'')],
      potentials := [(PotentialKey ''n1'' ''vdW'', [''sigma'' \<mapsto> 3 / 10, ''epsilon'' \<mapsto> 4]),
                     (PotentialKey ''n2'' ''vdW'', [''sigma'' \<mapsto> 1 / 10, ''epsilon'' \<mapsto> 1]),
                     (PotentialKey ''n3'' ''vdW'', [''sigma'' \<mapsto> 4 / 10, ''epsilon'' \<mapsto> 4])],
      scale_14 := 1 / 2,
      mixing_rule := rule\<rparr>"

text \<open>Its Bonds handler stores the keys of two of the three bonds in descending order.\<close>

definition peroxide_bonds :: handler where
  "peroxide_bonds = no_handler
     \<lparr>slot_map := [(TopologyKey [1, 0], PotentialKey ''b1'' ''Bonds''),
                   (TopologyKey [1, 2], PotentialKey ''b2'' ''Bonds''),
                   (TopologyKey [3, 2], PotentialKey ''b1'' ''Bonds'')],
      potentials := [(PotentialKey ''b1'' ''Bonds'', [''k'' \<mapsto> 1000, ''length'' \<mapsto> 1 / 10]),
                     (PotentialKey ''b2'' ''Bonds'', [''k'' \<mapsto> 800, ''length'' \<mapsto> 15 / 100])]\<rparr>"

definition peroxide :: "string \<Rightarrow> interchange" where
  "peroxide rule =
     \<lparr>handlers = [''vdW'' \<mapsto> peroxide_vdw rule,
                   ''Bonds'' \<mapsto> peroxide_bonds,
                   ''Electrostatics'' \<mapsto> no_handler
                      \<lparr>scale_14 := 5 / 6,
                       charges := [TopologyKey [0] \<mapsto> Scalar (4 / 10), TopologyKey [1] \<mapsto> Scalar (- 4 / 10),
                                   TopologyKey [2] \<mapsto> Scalar (- 4 / 10), TopologyKey [3] \<mapsto> Scalar (4 / 10)]\<rparr>],
      mdtop = \<lparr>atoms = peroxide_atoms, bonds = [(0, 1), (1, 2), (2, 3)],
                iterate_pairs = [(0, 3), (0, 3)], iterate_angles = [(0, 1, 2), (1, 2, 3)],
                iterate_propers = [(0, 1, 2, 3)], iterate_impropers = []\<rparr>,
      positions = [(0, 0, 0), (1 / 10, 0, 0), (1 / 10, 1 / 10, 0), (2 / 10, 1 / 10, 0)],
      box = None\<rparr>"


section \<open>Properties\<close>

subsection \<open>Auxiliary facts\<close>

lemmas water_defs = water_def water_topology_def water_atoms_def water_electrostatics_def
  water_vdw_def water_virtual_sites_def lone_pair_def water_angles_def water_bonds_def no_handler_def

lemmas peroxide_defs = peroxide_def peroxide_vdw_def peroxide_bonds_def peroxide_atoms_def no_handler_def

lemma and_then_pair [simp]:
  "and_then (ls, None) w = (ls @ fst w, snd w)" "and_then (ls, Some e) w = (ls, Some e)"
  by (simp_all add: and_then_def)

lemma and_then_wrote [simp]: "and_then (wrote ls) w = (ls @ fst w, snd w)"
  by (simp add: and_then_def wrote_def)

lemma and_then_raised [simp]: "and_then (raised e) w = raised e"
  by (simp add: and_then_def raised_def)

lemma snd_and_then_None: "snd (and_then w1 w2) = None \<longleftrightarrow> snd w1 = None \<and> snd w2 = None"
  by (auto simp: and_then_def split: option.splits)

lemma wrote_sel [simp]: "snd (wrote ls) = None" "fst (wrote ls) = ls"
  by (simp_all add: wrote_def)

lemma raised_sel [simp]: "snd (raised e) = Some e" "fst (raised e) = []"
  by (simp_all add: raised_def)

lemma write_or_raise_simps [simp]:
  "write_or_raise (Inl e) = raised e" "write_or_raise (Inr l) = wrote [l]"
  by (simp_all add: write_or_raise_def)

lemma try_bind_simps [simp]:
  "try_bind (Inl e) f = Inl e" "try_bind (Inr x) f = f x"
  by (simp_all add: try_bind_def)

lemma for_each_success:
  "snd (for_each (\<lambda>x. write_or_raise (f x)) xs) = None
   \<Longrightarrow> map Inr (fst (for_each (\<lambda>x. write_or_raise (f x)) xs)) = map f xs"
proof (induction xs)
  case Nil
  then show ?case by simp
next
  case (Cons x xs)
  then show ?case by (cases "f x") (simp_all add: snd_and_then_None)
qed











lemmas to_top_defs = to_top_def write_top_defaults_def defaults_line_def comb_rule_of_def dict_get_def
      build_typemap_def build_virtual_site_map_def write_atomtypes_def write_atomtypes_lj_def atomtypes_lj_entry_def
      atomtypes_vs_entry_def atomtypes_buck_entry_def write_atomtypes_buck_def get_buck_parameters_def
      get_lj_parameters_def get_parameters_def atomtypes_header_def write_moleculetype_def
      write_atoms_def write_atoms_section_def atoms_entry_def atoms_vs_entry_def charge_of_def write_pairs_section_def
      pairs_settings_def getitem_def write_valence_def write_bonds_def bonds_entry_def write_angles_def angles_entry_def
      write_dihedrals_def write_virtual_sites_def virtual_site_body_def divalent_entry_def system_parameter_def
      handler_parameter_def exclusions_entry_def write_system_def py_div_def str_int_def for_handler_def

lemma str_nat_digit: "n < 10 \<Longrightarrow> str_nat n = [digit_char n]"
  by (simp add: str_nat.simps)


lemma sort_pair: "sort [i, j :: int] = [min i j, max i j]"
  by (auto simp: min_def max_def)

lemma pairs_entry_eq:
  assumes "get_lj_parameters openff_sys (min i j) = Inr parameters1"
      and "parameters1 ''sigma'' = Some sigma1" and "parameters1 ''epsilon'' = Some epsilon1"
      and "get_lj_parameters openff_sys (max i j) = Inr parameters2"
      and "parameters2 ''sigma'' = Some sigma2" and "parameters2 ''epsilon'' = Some epsilon2"
  shows "pairs_entry openff_sys rule scale_lj (i, j) =
           (if rule = ''lorentz-berthelot'' then
              Inr (PairsLine (min i j + 1) (max i j + 1) 1 (PyFloat ((sigma1 + sigma2) * 0.5))
                     (pynum_times (pow_half (epsilon1 * epsilon2)) scale_lj))
            else if rule = ''geometric'' then
              Inr (PairsLine (min i j + 1) (max i j + 1) 1 (pow_half (sigma1 * sigma2))
                     (pynum_times (pow_half (epsilon1 * epsilon2)) scale_lj))
            else Inl UnboundLocalError)"
  using assms by (cases "i \<le> j") (simp_all add: pairs_entry_def dict_get_def Let_def min_def max_def)

lemma write_pairs_section_success:
  assumes "pairs_settings openff_sys = Inr (rule, scale_lj)"
      and "snd (write_pairs_section openff_sys) = None"
  shows "map Inr (drop 2 (fst (write_pairs_section openff_sys))) =
           map (pairs_entry openff_sys rule scale_lj) (remdups (iterate_pairs (mdtop openff_sys)))"
  using assms for_each_success [of "pairs_entry openff_sys rule scale_lj" "remdups (iterate_pairs (mdtop openff_sys))"]
  by (simp add: write_pairs_section_def Let_def)

lemma to_top_defaults_raise:
  "write_top_defaults openff_sys = (ls, Some e) \<Longrightarrow>
   to_top openff_sys = (Text ''; Generated by OpenFF Interchange\<newline>'' # ls, Some e)"
  by (simp add: to_top_def)













lemma build_virtual_site_map_eq:
  "build_virtual_site_map openff_sys =
     (case handlers openff_sys ''VirtualSites'' of
        None \<Rightarrow> []
      | Some h \<Rightarrow> map (\<lambda>j. (map fst (slot_map h) ! j, int (length (atoms (mdtop openff_sys))) + 1 + int j))
                    [0..<length (slot_map h)])"
  by (auto simp: build_virtual_site_map_def Let_def enumerate_eq_zip map_nth
      intro!: nth_equalityI split: option.splits)

lemma virtual_site_map_fst: "map fst (build_virtual_site_map openff_sys) = virtual_site_keys openff_sys"
  by (auto simp: build_virtual_site_map_eq virtual_site_keys_def intro!: nth_equalityI split: option.splits)

lemma virtual_site_map_snd:
  "map snd (build_virtual_site_map openff_sys) =
     map (\<lambda>j. int (length (atoms (mdtop openff_sys))) + 1 + int j) [0..<length (virtual_site_keys openff_sys)]"
  by (auto simp: build_virtual_site_map_eq virtual_site_keys_def split: option.splits)

lemma virtual_site_map_nth:
  "j < length (virtual_site_keys openff_sys) \<Longrightarrow>
   build_virtual_site_map openff_sys ! j =
     (virtual_site_keys openff_sys ! j, int (length (atoms (mdtop openff_sys))) + 1 + int j)"
  by (auto simp: build_virtual_site_map_eq virtual_site_keys_def split: option.splits)

lemma virtual_site_map_lookup:
  assumes "distinct (virtual_site_keys openff_sys)" and "j < length (virtual_site_keys openff_sys)"
  shows "map_of (build_virtual_site_map openff_sys) (virtual_site_keys openff_sys ! j) =
           Some (int (length (atoms (mdtop openff_sys))) + 1 + int j)"
proof -
  have "distinct (map fst (build_virtual_site_map openff_sys))"
    using assms(1) by (simp add: virtual_site_map_fst)
  moreover have "(virtual_site_keys openff_sys ! j, int (length (atoms (mdtop openff_sys))) + 1 + int j)
                   \<in> set (build_virtual_site_map openff_sys)"
  proof -
    have "j < length (build_virtual_site_map openff_sys)"
      using assms(2) virtual_site_map_fst [of openff_sys] by (metis length_map)
    then show ?thesis
      using virtual_site_map_nth [OF assms(2)] nth_mem by metis
  qed
  ultimately show ?thesis by (rule map_of_is_SomeI)
qed

lemma atoms_entry_Inr:
  "atoms_entry typemap charge_map (i, a) = Inr l \<Longrightarrow>
   \<exists>t r s q m. l = AtomsLine (int i + 1) t r s t (int i + 1) q m"
  by (auto simp: atoms_entry_def Let_def try_bind_def split: sum.splits)

lemma atoms_vs_entry_Inr:
  "atoms_vs_entry openff_sys (k, idx) = Inr l \<Longrightarrow>
   \<exists>q. l = AtomsLine idx ''VS'' 1 ''1'' ''VS'' idx q 0"
  by (auto simp: atoms_vs_entry_def Let_def try_bind_def split: sum.splits if_splits)

lemma map_Inr_nth:
  "map Inr ls = map f xs \<Longrightarrow> n < length xs \<Longrightarrow> f (xs ! n) = Inr (ls ! n)"
  by (metis length_map nth_map)

lemma write_atoms_section_success:
  assumes "snd (write_atoms_section openff_sys typemap vmap) = None"
  shows "\<exists>electrostatics lines1 lines2.
           handlers openff_sys ''Electrostatics'' = Some electrostatics
         \<and> fst (write_atoms_section openff_sys typemap vmap) =
             [Text ''[ atoms ]\<newline>'',
              Text '';num, type, resnum, resname, atomname, cgnr, q, m\<newline>''] @ lines1 @ lines2
         \<and> map Inr lines1 = map (atoms_entry typemap (charges electrostatics)) (enumerate 0 (atoms (mdtop openff_sys)))
         \<and> map Inr lines2 = map (atoms_vs_entry openff_sys) vmap"
proof -
  obtain el where el: "handlers openff_sys ''Electrostatics'' = Some el"
    using assms by (auto simp: write_atoms_section_def dict_get_def split: option.splits)
  let ?w1 = "for_each (\<lambda>item. write_or_raise (atoms_entry typemap (charges el) item))
                 (enumerate 0 (atoms (mdtop openff_sys)))"
  let ?w2 = "for_each (\<lambda>item. write_or_raise (atoms_vs_entry openff_sys item)) vmap"
  have n: "snd ?w1 = None" "snd ?w2 = None"
    using assms el by (simp_all add: write_atoms_section_def dict_get_def snd_and_then_None)
  have "fst (write_atoms_section openff_sys typemap vmap) =
             [Text ''[ atoms ]\<newline>'',
              Text '';num, type, resnum, resname, atomname, cgnr, q, m\<newline>''] @ fst ?w1 @ fst ?w2"
    using el n by (simp add: write_atoms_section_def dict_get_def and_then_def)
  then show ?thesis
    using el for_each_success [OF n(1)] for_each_success [OF n(2)] by blast
qed







subsection \<open>C1: DivalentLonePair virtual sites\<close>




subsection \<open>C2: MonovalentLonePair virtual sites\<close>




subsection \<open>C3: a model with both vdW and Buckingham-6\<close>

text \<open>
  Claim C3, as amended. The export of a model that has both a vdW and a Buckingham-6
  handler fails, but not before output is produced: the target has been opened for
  writing, and the comment line and the header of \<^verbatim>\<open>[ defaults ]\<close> are written
  in every case. When the mixing rule of vdW is supported and the model has an
  Electrostatics handler, the defaults line is written too, the error is the
  UnsupportedExportError of \<^verbatim>\<open>_write_atomtypes\<close>, and nothing else is written.
\<close>

theorem lj_and_buckingham_export:
  assumes "handlers openff_sys ''vdW'' = Some vdw"
      and "handlers openff_sys ''Buckingham-6'' = Some buck"
  shows "snd (to_top openff_sys) \<noteq> None
       \<and> take 3 (fst (to_top openff_sys)) =
           [Text ''; Generated by OpenFF Interchange\<newline>'',
            Text ''[ defaults ]\<newline>'',
            Text (''; nbfunc'' @ tab # ''comb-rule'' @ tab # ''gen-pairs'' @ tab # ''fudgeLJ'' @ tab # ''fudgeQQ\<newline>'')]
       \<and> (comb_rule_of (mixing_rule vdw) ''vdW'' = Inr comb_rule
            \<and> handlers openff_sys ''Electrostatics'' = Some electrostatics \<longrightarrow>
           to_top openff_sys =
             ([Text ''; Generated by OpenFF Interchange\<newline>'',
               Text ''[ defaults ]\<newline>'',
               Text (''; nbfunc'' @ tab # ''comb-rule'' @ tab # ''gen-pairs'' @ tab # ''fudgeLJ'' @ tab # ''fudgeQQ\<newline>''),
               DefaultsLine 1 comb_rule ''no'' (scale_14 vdw) (scale_14 electrostatics)],
              Some UnsupportedExportError))"
proof -
  have at: "write_atomtypes openff_sys typemap vmap = raised UnsupportedExportError" for typemap vmap
    using assms by (simp add: write_atomtypes_def)
  show ?thesis
  proof (cases "defaults_line openff_sys 1 ''vdW'' vdw")
    case (Inl e)
    then show ?thesis using assms(1)
      by (auto simp: to_top_def write_top_defaults_def Let_def defaults_line_def dict_get_def
          split: option.splits sum.splits)
  next
    case (Inr l)
    then show ?thesis using assms(1) at
      by (auto simp: to_top_def write_top_defaults_def Let_def defaults_line_def dict_get_def
          split: option.splits sum.splits)
  qed
qed

theorem lj_and_buckingham_export_witness:
  "to_top water_lj_and_buckingham =
     ([Text ''; Generated by OpenFF Interchange\<newline>'',
       Text ''[ defaults ]\<newline>'',
       Text (''; nbfunc'' @ tab # ''comb-rule'' @ tab # ''gen-pairs'' @ tab # ''fudgeLJ'' @ tab # ''fudgeQQ\<newline>''),
       DefaultsLine 1 2 ''no'' (1 / 2) (5 / 6)],
      Some UnsupportedExportError)"
proof -
  have v: "handlers water_lj_and_buckingham ''vdW'' = Some (water_vdw ''DivalentLonePair'')"
    by (simp add: water_lj_and_buckingham_def water_def)
  have b: "handlers water_lj_and_buckingham ''Buckingham-6'' = Some (no_handler\<lparr>mixing_rule := ''buckingham''\<rparr>)"
    by (simp add: water_lj_and_buckingham_def water_def)
  have c: "comb_rule_of (mixing_rule (water_vdw ''DivalentLonePair'')) ''vdW'' = Inr 2"
    by (simp add: comb_rule_of_def water_vdw_def no_handler_def)
  have e: "handlers water_lj_and_buckingham ''Electrostatics'' = Some (water_electrostatics ''DivalentLonePair'')"
    by (simp add: water_lj_and_buckingham_def water_def)
  show ?thesis
    using lj_and_buckingham_export [OF v b, of 2 "water_electrostatics ''DivalentLonePair''"] c e
    by (simp add: water_vdw_def water_electrostatics_def no_handler_def)
qed

text \<open>
  The claim as stated has the error raised before any output: on this model four
  writes precede it.
\<close>

theorem lj_and_buckingham_counterexample:
  "handlers water_lj_and_buckingham ''vdW'' \<noteq> None
   \<and> handlers water_lj_and_buckingham ''Buckingham-6'' \<noteq> None
   \<and> snd (to_top water_lj_and_buckingham) = Some UnsupportedExportError
   \<and> length (fst (to_top water_lj_and_buckingham)) = 4"
  by (simp add: water_lj_and_buckingham_def to_top_defs Let_def water_defs)


subsection \<open>C4: the pairs section has one entry for each pair\<close>




subsection \<open>C5: the parameters of a 1-4 pair and the mixing rule\<close>

text \<open>
  Claim C5, as amended. The entry of a pair carries the two indices in ascending
  order, plus one. Under \<^verbatim>\<open>lorentz-berthelot\<close> its sigma is the arithmetic mean of
  the two sigmas, under \<^verbatim>\<open>geometric\<close> their geometric mean; its epsilon is the
  geometric mean of the two epsilons times the 1-4 scale factor (the parameters are
  taken non-negative, where the geometric mean is a real number). When the section is
  written without error its entries are these, computed with the mixing rule and
  the scale factor of the vdW handler. Any other mixing rule makes the export raise
  UnsupportedExportError while \<^verbatim>\<open>[ defaults ]\<close> is written, with one exception:
  \<^verbatim>\<open>buckingham\<close> on a Buckingham-6 handler (in a model without vdW) is accepted and
  written as combination rule 2.
\<close>

theorem pairs_follow_mixing_rule:
  "(get_lj_parameters openff_sys (min i j) = Inr parameters1
      \<and> parameters1 ''sigma'' = Some sigma1 \<and> parameters1 ''epsilon'' = Some epsilon1
      \<and> get_lj_parameters openff_sys (max i j) = Inr parameters2
      \<and> parameters2 ''sigma'' = Some sigma2 \<and> parameters2 ''epsilon'' = Some epsilon2
      \<and> 0 \<le> epsilon1 * epsilon2 \<longrightarrow>
        pairs_entry openff_sys ''lorentz-berthelot'' scale_lj (i, j) =
           Inr (PairsLine (min i j + 1) (max i j + 1) 1 (PyFloat ((sigma1 + sigma2) / 2))
                  (PyFloat (sqrt (epsilon1 * epsilon2) * scale_lj)))
        \<and> (0 \<le> sigma1 * sigma2 \<longrightarrow>
           pairs_entry openff_sys ''geometric'' scale_lj (i, j) =
             Inr (PairsLine (min i j + 1) (max i j + 1) 1 (PyFloat (sqrt (sigma1 * sigma2)))
                    (PyFloat (sqrt (epsilon1 * epsilon2) * scale_lj)))))
   \<and> (handlers openff_sys ''vdW'' = Some vdw \<and> snd (write_pairs_section openff_sys) = None \<longrightarrow>
           map Inr (drop 2 (fst (write_pairs_section openff_sys))) =
             map (pairs_entry openff_sys (mixing_rule vdw) (scale_14 vdw))
               (remdups (iterate_pairs (mdtop openff_sys))))
   \<and> (handlers openff_sys ''vdW'' = Some vdw
            \<and> mixing_rule vdw \<noteq> ''lorentz-berthelot'' \<and> mixing_rule vdw \<noteq> ''geometric'' \<longrightarrow>
           to_top openff_sys =
             ([Text ''; Generated by OpenFF Interchange\<newline>'',
               Text ''[ defaults ]\<newline>'',
               Text (''; nbfunc'' @ tab # ''comb-rule'' @ tab # ''gen-pairs'' @ tab # ''fudgeLJ'' @ tab # ''fudgeQQ\<newline>'')],
              Some UnsupportedExportError))
   \<and> (handlers openff_sys ''vdW'' = None \<and> handlers openff_sys ''Buckingham-6'' = Some buck
            \<and> mixing_rule buck \<noteq> ''lorentz-berthelot'' \<and> mixing_rule buck \<noteq> ''geometric''
            \<and> mixing_rule buck \<noteq> ''buckingham'' \<longrightarrow>
           to_top openff_sys =
             ([Text ''; Generated by OpenFF Interchange\<newline>'',
               Text ''[ defaults ]\<newline>'',
               Text (''; nbfunc'' @ tab # ''comb-rule'' @ tab # ''gen-pairs'' @ tab # ''fudgeLJ'' @ tab # ''fudgeQQ\<newline>'')],
              Some UnsupportedExportError))
   \<and> (handlers openff_sys ''vdW'' = None \<and> handlers openff_sys ''Buckingham-6'' = Some buck
            \<and> mixing_rule buck = ''buckingham''
            \<and> handlers openff_sys ''Electrostatics'' = Some electrostatics \<longrightarrow>
           write_top_defaults openff_sys =
             ([Text ''[ defaults ]\<newline>'',
               Text (''; nbfunc'' @ tab # ''comb-rule'' @ tab # ''gen-pairs'' @ tab # ''fudgeLJ'' @ tab # ''fudgeQQ\<newline>''),
               DefaultsLine 2 2 ''no'' (scale_14 buck) (scale_14 electrostatics)],
              None))"
proof -
  have lb: "pairs_entry openff_sys ''lorentz-berthelot'' scale_lj (i, j) =
           Inr (PairsLine (min i j + 1) (max i j + 1) 1 (PyFloat ((sigma1 + sigma2) / 2))
                  (PyFloat (sqrt (epsilon1 * epsilon2) * scale_lj)))
        \<and> (0 \<le> sigma1 * sigma2 \<longrightarrow>
           pairs_entry openff_sys ''geometric'' scale_lj (i, j) =
             Inr (PairsLine (min i j + 1) (max i j + 1) 1 (PyFloat (sqrt (sigma1 * sigma2)))
                    (PyFloat (sqrt (epsilon1 * epsilon2) * scale_lj))))"
    if "get_lj_parameters openff_sys (min i j) = Inr parameters1"
      "parameters1 ''sigma'' = Some sigma1" "parameters1 ''epsilon'' = Some epsilon1"
      "get_lj_parameters openff_sys (max i j) = Inr parameters2"
      "parameters2 ''sigma'' = Some sigma2" "parameters2 ''epsilon'' = Some epsilon2"
      "0 \<le> epsilon1 * epsilon2"
  proof -
    note eq = pairs_entry_eq [OF that(1-6)]
    show ?thesis
      using eq [of "''lorentz-berthelot''" scale_lj] eq [of "''geometric''" scale_lj] that(7)
      by (simp add: pow_half_def pynum_times_def)
  qed
  have sec: "map Inr (drop 2 (fst (write_pairs_section openff_sys))) =
             map (pairs_entry openff_sys (mixing_rule vdw) (scale_14 vdw))
               (remdups (iterate_pairs (mdtop openff_sys)))"
    if "handlers openff_sys ''vdW'' = Some vdw" "snd (write_pairs_section openff_sys) = None"
  proof -
    have "pairs_settings openff_sys = Inr (mixing_rule vdw, scale_14 vdw)"
      using that(1) by (simp add: pairs_settings_def getitem_def)
    then show ?thesis using that(2) by (rule write_pairs_section_success)
  qed
  have d1: "to_top openff_sys =
             ([Text ''; Generated by OpenFF Interchange\<newline>'',
               Text ''[ defaults ]\<newline>'',
               Text (''; nbfunc'' @ tab # ''comb-rule'' @ tab # ''gen-pairs'' @ tab # ''fudgeLJ'' @ tab # ''fudgeQQ\<newline>'')],
              Some UnsupportedExportError)"
    if "handlers openff_sys ''vdW'' = Some vdw"
       "mixing_rule vdw \<noteq> ''lorentz-berthelot''" "mixing_rule vdw \<noteq> ''geometric''"
  proof -
    have "write_top_defaults openff_sys =
            ([Text ''[ defaults ]\<newline>'',
              Text (''; nbfunc'' @ tab # ''comb-rule'' @ tab # ''gen-pairs'' @ tab # ''fudgeLJ'' @ tab # ''fudgeQQ\<newline>'')],
             Some UnsupportedExportError)"
      using that by (simp add: write_top_defaults_def defaults_line_def comb_rule_of_def raised_def)
    then show ?thesis by (rule to_top_defaults_raise)
  qed
  have d2: "to_top openff_sys =
             ([Text ''; Generated by OpenFF Interchange\<newline>'',
               Text ''[ defaults ]\<newline>'',
               Text (''; nbfunc'' @ tab # ''comb-rule'' @ tab # ''gen-pairs'' @ tab # ''fudgeLJ'' @ tab # ''fudgeQQ\<newline>'')],
              Some UnsupportedExportError)"
    if "handlers openff_sys ''vdW'' = None" "handlers openff_sys ''Buckingham-6'' = Some buck"
       "mixing_rule buck \<noteq> ''lorentz-berthelot''" "mixing_rule buck \<noteq> ''geometric''"
       "mixing_rule buck \<noteq> ''buckingham''"
  proof -
    have "write_top_defaults openff_sys =
            ([Text ''[ defaults ]\<newline>'',
              Text (''; nbfunc'' @ tab # ''comb-rule'' @ tab # ''gen-pairs'' @ tab # ''fudgeLJ'' @ tab # ''fudgeQQ\<newline>'')],
             Some UnsupportedExportError)"
      using that by (simp add: write_top_defaults_def defaults_line_def comb_rule_of_def raised_def)
    then show ?thesis by (rule to_top_defaults_raise)
  qed
  have d3: "write_top_defaults openff_sys =
             ([Text ''[ defaults ]\<newline>'',
               Text (''; nbfunc'' @ tab # ''comb-rule'' @ tab # ''gen-pairs'' @ tab # ''fudgeLJ'' @ tab # ''fudgeQQ\<newline>''),
               DefaultsLine 2 2 ''no'' (scale_14 buck) (scale_14 electrostatics)],
              None)"
    if "handlers openff_sys ''vdW'' = None" "handlers openff_sys ''Buckingham-6'' = Some buck"
       "mixing_rule buck = ''buckingham''" "handlers openff_sys ''Electrostatics'' = Some electrostatics"
    using that by (simp add: write_top_defaults_def defaults_line_def comb_rule_of_def dict_get_def wrote_def)
  show ?thesis using lb sec d1 d2 d3 by blast
qed


theorem pairs_follow_mixing_rule_witness:
  "pairs_entry (peroxide ''geometric'') ''lorentz-berthelot'' (1 / 2) (3, 0) =
     Inr (PairsLine 1 4 1 (PyFloat (1 / 4)) (PyFloat 1))
   \<and> pairs_entry (peroxide ''geometric'') ''geometric'' (1 / 2) (3, 0) =
     Inr (PairsLine 1 4 1 (PyFloat (1 / 5)) (PyFloat 1))
   \<and> map Inr (drop 2 (fst (write_pairs_section (peroxide ''geometric'')))) =
       map (pairs_entry (peroxide ''geometric'') ''geometric'' (1 / 2)) [(0, 3)]
   \<and> to_top (peroxide ''arithmetic'') =
        ([Text ''; Generated by OpenFF Interchange\<newline>'',
          Text ''[ defaults ]\<newline>'',
          Text (''; nbfunc'' @ tab # ''comb-rule'' @ tab # ''gen-pairs'' @ tab # ''fudgeLJ'' @ tab # ''fudgeQQ\<newline>'')],
         Some UnsupportedExportError)
   \<and> write_top_defaults water_buckingham =
        ([Text ''[ defaults ]\<newline>'',
          Text (''; nbfunc'' @ tab # ''comb-rule'' @ tab # ''gen-pairs'' @ tab # ''fudgeLJ'' @ tab # ''fudgeQQ\<newline>''),
          DefaultsLine 2 2 ''no'' 1 (5 / 6)],
         None)"
proof -
  have p1: "get_lj_parameters (peroxide ''geometric'') (min 3 0) = Inr [''sigma'' \<mapsto> 1 / 10, ''epsilon'' \<mapsto> 1]"
    by (simp add: get_lj_parameters_def get_parameters_def dict_get_def peroxide_defs)
  have p2: "get_lj_parameters (peroxide ''geometric'') (max 3 0) = Inr [''sigma'' \<mapsto> 4 / 10, ''epsilon'' \<mapsto> 4]"
    by (simp add: get_lj_parameters_def get_parameters_def dict_get_def peroxide_defs)
  have v: "handlers (peroxide rule) ''vdW'' = Some (peroxide_vdw rule)" for rule
    by (simp add: peroxide_def)
  have ok: "snd (write_pairs_section (peroxide ''geometric'')) = None"
    by (simp add: write_pairs_section_def pairs_settings_def getitem_def pairs_entry_def
        get_lj_parameters_def get_parameters_def dict_get_def pow_half_def peroxide_defs)
  have b: "handlers water_buckingham ''vdW'' = None
           \<and> handlers water_buckingham ''Buckingham-6'' = Some (the (handlers water_buckingham ''Buckingham-6''))
           \<and> mixing_rule (the (handlers water_buckingham ''Buckingham-6'')) = ''buckingham''
           \<and> handlers water_buckingham ''Electrostatics'' = Some (water_electrostatics ''DivalentLonePair'')"
    by (simp add: water_buckingham_def water_def no_handler_def)
  have sq: "sqrt (4 / 100) = 2 / 10"
    using real_sqrt_abs2 [of "2 / 10"] by (simp add: power2_eq_square)
  note t1 = pairs_follow_mixing_rule [of "peroxide ''geometric''" 3 0
      "[''sigma'' \<mapsto> 1 / 10, ''epsilon'' \<mapsto> 1]" "1 / 10" 1 "[''sigma'' \<mapsto> 4 / 10, ''epsilon'' \<mapsto> 4]" "4 / 10" 4
      "1 / 2" "peroxide_vdw ''geometric''"]
  note t2 = pairs_follow_mixing_rule [of "peroxide ''arithmetic''" _ _ _ _ _ _ _ _ _ "peroxide_vdw ''arithmetic''"]
  note t3 = pairs_follow_mixing_rule [of water_buckingham _ _ _ _ _ _ _ _ _ _
      "the (handlers water_buckingham ''Buckingham-6'')" "water_electrostatics ''DivalentLonePair''"]
  have c1: "pairs_entry (peroxide ''geometric'') ''lorentz-berthelot'' (1 / 2) (3, 0) =
     Inr (PairsLine 1 4 1 (PyFloat (1 / 4)) (PyFloat 1))
   \<and> pairs_entry (peroxide ''geometric'') ''geometric'' (1 / 2) (3, 0) =
     Inr (PairsLine 1 4 1 (PyFloat (1 / 5)) (PyFloat 1))"
    using t1 p1 p2 sq by simp
  have c2: "map Inr (drop 2 (fst (write_pairs_section (peroxide ''geometric'')))) =
       map (pairs_entry (peroxide ''geometric'') ''geometric'' (1 / 2)) [(0, 3)]"
    using t1 v [of "''geometric''"] ok by (simp add: peroxide_defs)
  have c3: "to_top (peroxide ''arithmetic'') =
        ([Text ''; Generated by OpenFF Interchange\<newline>'',
          Text ''[ defaults ]\<newline>'',
          Text (''; nbfunc'' @ tab # ''comb-rule'' @ tab # ''gen-pairs'' @ tab # ''fudgeLJ'' @ tab # ''fudgeQQ\<newline>'')],
         Some UnsupportedExportError)"
    using t2 v [of "''arithmetic''"] by (simp add: peroxide_vdw_def no_handler_def)
  have c4: "write_top_defaults water_buckingham =
        ([Text ''[ defaults ]\<newline>'',
          Text (''; nbfunc'' @ tab # ''comb-rule'' @ tab # ''gen-pairs'' @ tab # ''fudgeLJ'' @ tab # ''fudgeQQ\<newline>''),
          DefaultsLine 2 2 ''no'' 1 (5 / 6)],
         None)"
    using t3 b by (simp add: water_buckingham_def water_def water_electrostatics_def no_handler_def)
  show ?thesis using c1 c2 c3 c4 by blast
qed

text \<open>
  The claim as stated makes every other mixing rule fatal: this model, whose only
  nonbonded handler is Buckingham-6 under the rule \<^verbatim>\<open>buckingham\<close>, is exported
  without error.
\<close>

theorem mixing_rule_counterexample:
  "handlers water_buckingham ''vdW'' = None
   \<and> map_option mixing_rule (handlers water_buckingham ''Buckingham-6'') = Some ''buckingham''
   \<and> snd (write_top_defaults water_buckingham) = None
   \<and> snd (to_top water_buckingham) = None"
  by (simp add: water_buckingham_def to_top_defs Let_def water_defs str_nat_digit)


subsection \<open>C6: the bonds section\<close>





subsection \<open>C8: the indices of the particles\<close>

text \<open>
  Claim C8. With \<open>N\<close> atoms in the topology, the atom at position \<open>i\<close> (from 0) is
  written with the index \<open>i + 1\<close>, and \<^verbatim>\<open>_build_virtual_site_map\<close> gives the
  virtual site at position \<open>j\<close> of the VirtualSites slot map the index
  \<open>N + 1 + j\<close>. The indices of the atoms followed by those of the virtual sites are
  \<open>1, ..., N + V\<close>: contiguous, the virtual sites after the atoms in the order of the
  table, and no index is given twice. A key of the table (the keys of a dict are
  distinct) is mapped to the index of its position, and when the section
  \<^verbatim>\<open>[ atoms ]\<close> of the topology file is written without error its \<open>n\<close>-th entry
  has the number \<open>n\<close>.
\<close>

theorem particle_indices_contiguous:
  "map fst (build_virtual_site_map openff_sys) = virtual_site_keys openff_sys
   \<and> map snd (build_virtual_site_map openff_sys) =
       map (\<lambda>j. int (length (atoms (mdtop openff_sys))) + 1 + int j)
         [0..<length (virtual_site_keys openff_sys)]
   \<and> map (\<lambda>i. int i + 1) [0..<length (atoms (mdtop openff_sys))]
         @ map snd (build_virtual_site_map openff_sys)
       = map (\<lambda>n. int n + 1) [0..<length (atoms (mdtop openff_sys)) + length (virtual_site_keys openff_sys)]
   \<and> distinct (map (\<lambda>i. int i + 1) [0..<length (atoms (mdtop openff_sys))]
         @ map snd (build_virtual_site_map openff_sys))
   \<and> (distinct (virtual_site_keys openff_sys) \<longrightarrow>
        (\<forall>j < length (virtual_site_keys openff_sys).
           map_of (build_virtual_site_map openff_sys) (virtual_site_keys openff_sys ! j) =
             Some (int (length (atoms (mdtop openff_sys))) + 1 + int j)))
   \<and> (snd (write_atoms_section openff_sys typemap (build_virtual_site_map openff_sys)) = None \<longrightarrow>
        (\<exists>lines. fst (write_atoms_section openff_sys typemap (build_virtual_site_map openff_sys)) =
                    [Text ''[ atoms ]\<newline>'',
                     Text '';num, type, resnum, resname, atomname, cgnr, q, m\<newline>''] @ lines
           \<and> length lines = length (atoms (mdtop openff_sys)) + length (virtual_site_keys openff_sys)
           \<and> (\<forall>n < length lines. \<exists>t r s a q m. lines ! n = AtomsLine (int n + 1) t r s a (int n + 1) q m)))"
proof -
  let ?N = "length (atoms (mdtop openff_sys))"
  let ?V = "length (virtual_site_keys openff_sys)"
  let ?vmap = "build_virtual_site_map openff_sys"
  have all: "map (\<lambda>i. int i + 1) [0..<?N] @ map snd ?vmap = map (\<lambda>n. int n + 1) [0..<?N + ?V]"
  proof (rule nth_equalityI)
    show "length (map (\<lambda>i. int i + 1) [0..<?N] @ map snd ?vmap) = length (map (\<lambda>n. int n + 1) [0..<?N + ?V])"
      by (simp add: virtual_site_map_snd)
  next
    fix i
    assume "i < length (map (\<lambda>i. int i + 1) [0..<?N] @ map snd ?vmap)"
    then have "i < ?N + ?V" by (simp add: virtual_site_map_snd)
    then show "(map (\<lambda>i. int i + 1) [0..<?N] @ map snd ?vmap) ! i = map (\<lambda>n. int n + 1) [0..<?N + ?V] ! i"
      by (auto simp: virtual_site_map_snd nth_append)
  qed
  have "distinct (map (\<lambda>n. int n + 1) [0..<?N + ?V])"
    by (simp add: distinct_map inj_on_def)
  then have dist: "distinct (map (\<lambda>i. int i + 1) [0..<?N] @ map snd ?vmap)"
    using all by simp
  have atoms_sec: "\<exists>lines. fst (write_atoms_section openff_sys typemap ?vmap) =
                    [Text ''[ atoms ]\<newline>'',
                     Text '';num, type, resnum, resname, atomname, cgnr, q, m\<newline>''] @ lines
           \<and> length lines = ?N + ?V
           \<and> (\<forall>n < length lines. \<exists>t r s a q m. lines ! n = AtomsLine (int n + 1) t r s a (int n + 1) q m)"
    if ok: "snd (write_atoms_section openff_sys typemap ?vmap) = None"
  proof -
    from write_atoms_section_success [OF ok] obtain el lines1 lines2 where
      all4: "handlers openff_sys ''Electrostatics'' = Some el
         \<and> fst (write_atoms_section openff_sys typemap ?vmap) =
             [Text ''[ atoms ]\<newline>'',
              Text '';num, type, resnum, resname, atomname, cgnr, q, m\<newline>''] @ lines1 @ lines2
         \<and> map Inr lines1 = map (atoms_entry typemap (charges el)) (enumerate 0 (atoms (mdtop openff_sys)))
         \<and> map Inr lines2 = map (atoms_vs_entry openff_sys) ?vmap"
      by (elim exE) (rule that)
    have w: "fst (write_atoms_section openff_sys typemap ?vmap) =
             [Text ''[ atoms ]\<newline>'',
              Text '';num, type, resnum, resname, atomname, cgnr, q, m\<newline>''] @ lines1 @ lines2"
      and l1: "map Inr lines1 = map (atoms_entry typemap (charges el)) (enumerate 0 (atoms (mdtop openff_sys)))"
      and l2: "map Inr lines2 = map (atoms_vs_entry openff_sys) ?vmap"
      using all4 by blast+
    have len1: "length lines1 = ?N"
      using l1 by (metis length_map length_enumerate)
    have lenv: "length ?vmap = ?V"
      using virtual_site_map_fst [of openff_sys] by (metis length_map)
    have len2: "length lines2 = ?V"
      using l2 lenv by (metis length_map)
    have form: "\<exists>t r s a q m. (lines1 @ lines2) ! n = AtomsLine (int n + 1) t r s a (int n + 1) q m"
      if n: "n < ?N + ?V" for n
    proof (cases "n < ?N")
      case True
      have "atoms_entry typemap (charges el) (enumerate 0 (atoms (mdtop openff_sys)) ! n) = Inr (lines1 ! n)"
        using l1 True by (intro map_Inr_nth) simp_all
      then have "atoms_entry typemap (charges el) (n, atoms (mdtop openff_sys) ! n) = Inr (lines1 ! n)"
        using True by (simp add: nth_enumerate_eq)
      from atoms_entry_Inr [OF this] show ?thesis
        using True len1 by (auto simp: nth_append)
    next
      case False
      then have j: "n - ?N < ?V" using n by simp
      have "atoms_vs_entry openff_sys (?vmap ! (n - ?N)) = Inr (lines2 ! (n - ?N))"
        using l2 j lenv by (intro map_Inr_nth) simp_all
      then have "atoms_vs_entry openff_sys (virtual_site_keys openff_sys ! (n - ?N), int ?N + 1 + int (n - ?N))
                   = Inr (lines2 ! (n - ?N))"
        using virtual_site_map_nth [OF j] by simp
      from atoms_vs_entry_Inr [OF this] have
        "\<exists>q. lines2 ! (n - ?N) = AtomsLine (int n + 1) ''VS'' 1 ''1'' ''VS'' (int n + 1) q 0"
        using False by (simp add: algebra_simps of_nat_diff)
      then show ?thesis using False len1 by (auto simp: nth_append)
    qed
    show ?thesis using w len1 len2 form by auto
  qed
  show ?thesis
    using virtual_site_map_fst [of openff_sys] virtual_site_map_snd [of openff_sys] all dist
      virtual_site_map_lookup [of openff_sys] atoms_sec
    by blast
qed


theorem particle_indices_contiguous_witness:
  "map snd (build_virtual_site_map (water ''DivalentLonePair'' (1 / 10) 0)) = [4]
   \<and> map (\<lambda>i. int i + 1) [0..<3] @ map snd (build_virtual_site_map (water ''DivalentLonePair'' (1 / 10) 0))
       = [1, 2, 3, 4]
   \<and> map_of (build_virtual_site_map (water ''DivalentLonePair'' (1 / 10) 0)) (lone_pair ''DivalentLonePair'')
       = Some 4
   \<and> (\<exists>lines. fst (write_atoms_section (water ''DivalentLonePair'' (1 / 10) 0)
                       (build_typemap (water ''DivalentLonePair'' (1 / 10) 0))
                       (build_virtual_site_map (water ''DivalentLonePair'' (1 / 10) 0))) =
                    [Text ''[ atoms ]\<newline>'',
                     Text '';num, type, resnum, resname, atomname, cgnr, q, m\<newline>''] @ lines
           \<and> length lines = 4
           \<and> (\<forall>n < length lines. \<exists>t r s a q m. lines ! n = AtomsLine (int n + 1) t r s a (int n + 1) q m))"
proof -
  let ?W = "water ''DivalentLonePair'' (1 / 10) 0"
  have n: "length (atoms (mdtop ?W)) = 3"
    by (simp add: water_def water_topology_def water_atoms_def)
  have k: "virtual_site_keys ?W = [lone_pair ''DivalentLonePair'']"
    by (simp add: virtual_site_keys_def water_def water_virtual_sites_def no_handler_def)
  have ok: "snd (write_atoms_section ?W (build_typemap ?W) (build_virtual_site_map ?W)) = None"
    by (simp add: write_atoms_section_def atoms_entry_def atoms_vs_entry_def charge_of_def dict_get_def
        build_typemap_def build_virtual_site_map_def Let_def water_defs)
  note t = particle_indices_contiguous [of ?W "build_typemap ?W"]
  have c1: "map snd (build_virtual_site_map ?W) = [4]"
    using t n k by simp
  have c2: "map (\<lambda>i. int i + 1) [0..<3] @ map snd (build_virtual_site_map ?W) = [1, 2, 3, 4]"
    using c1 by (simp add: upt_rec)
  have "\<forall>j < length (virtual_site_keys ?W).
           map_of (build_virtual_site_map ?W) (virtual_site_keys ?W ! j) =
             Some (int (length (atoms (mdtop ?W))) + 1 + int j)"
    using t k by simp
  then have c3: "map_of (build_virtual_site_map ?W) (lone_pair ''DivalentLonePair'') = Some 4"
    using n k by simp
  have c4: "\<exists>lines. fst (write_atoms_section ?W (build_typemap ?W) (build_virtual_site_map ?W)) =
                    [Text ''[ atoms ]\<newline>'',
                     Text '';num, type, resnum, resname, atomname, cgnr, q, m\<newline>''] @ lines
           \<and> length lines = 4
           \<and> (\<forall>n < length lines. \<exists>t r s a q m. lines ! n = AtomsLine (int n + 1) t r s a (int n + 1) q m)"
    using t ok n k by simp
  show ?thesis using c1 c2 c3 c4 by blast
qed


subsection \<open>C9: virtual sites of another kind\<close>





end
